theory Spec2Isabelle
  imports Complex_Main
begin

section \<open>Smart knob firmware: configuration, haptic mapping and step output\<close>

text \<open>
  The development follows \<^verbatim>\<open>HapticKnobFirmware.ino\<close>. The file holds two listings of the
  firmware. Their \<^verbatim>\<open>loop()\<close> bodies perform the same computation (the second spells
  out two \<^verbatim>\<open>else\<close> branches that assign 0 again); they differ in the texts they print,
  in the sixth preset and in the guard of \<^verbatim>\<open>doSetStepsPerRev\<close>. The first listing is modelled in full, the second where its
  logic differs (suffix \<open>_v2\<close>).

  Numbers. The sketch is written for an Arduino Mega (the pin comment at line 16), where
  \<^verbatim>\<open>float\<close> and \<^verbatim>\<open>double\<close> are both IEEE binary32, \<^verbatim>\<open>int\<close> has 16 bits and \<^verbatim>\<open>long\<close> has 32.
  The two computations of \<^verbatim>\<open>loop()\<close> are given in two readings.
  \<^item> The exact reading takes a \<^verbatim>\<open>float\<close> as a \<^typ>\<open>real\<close> and \<^verbatim>\<open>int\<close>/\<^verbatim>\<open>long\<close> as
    \<^typ>\<open>int\<close>, with no rounding and no overflow. It carries the statements that depend
    only on which branch runs, on \<^verbatim>\<open>constrain\<close> and on the state (C3, C5 to C10).
  \<^item> The binary32 reading (suffix \<open>_f32\<close>) rounds the result of every \<^verbatim>\<open>float\<close>
    operation to binary32 and makes the cast to \<^verbatim>\<open>long\<close> partial. It carries the
    statements about the values the two computations return (C1, C2, C4).
\<close>

subsection \<open>Platform macros and library functions used by the sketch\<close>

text \<open>
  Arduino's \<^verbatim>\<open>constrain(amt,low,high)\<close> is the macro
  \<^verbatim>\<open>((amt)<(low)?(low):((amt)>(high)?(high):(amt)))\<close>. It does not require \<open>low \<le> high\<close>.
\<close>

definition constrain :: "'a::linorder \<Rightarrow> 'a \<Rightarrow> 'a \<Rightarrow> 'a" where
  "constrain amt low high = (if amt < low then low else if amt > high then high else amt)"

text \<open>
  Arduino's \<^verbatim>\<open>round(x)\<close> is the macro \<^verbatim>\<open>((x)>=0?(long)((x)+0.5):(long)((x)-0.5))\<close>; the
  cast truncates towards zero, so halves are rounded away from zero (as C's
  \<^verbatim>\<open>round\<close> does).
\<close>

definition trunc_long :: "real \<Rightarrow> int" where
  "trunc_long x = (if x \<ge> 0 then \<lfloor>x\<rfloor> else \<lceil>x\<rceil>)"

definition round_macro :: "real \<Rightarrow> int" where
  "round_macro x = (if x \<ge> 0 then trunc_long (x + 0.5) else trunc_long (x - 0.5))"

text \<open>
  SimpleFOC's \<^verbatim>\<open>foc_utils.h\<close> defines \<^verbatim>\<open>_PI\<close> as \<^verbatim>\<open>3.14159265359f\<close> and \<^verbatim>\<open>_2PI\<close> as
  \<^verbatim>\<open>6.28318530718f\<close>.
\<close>

definition PI_macro :: real where
  "PI_macro = 3.14159265359"

definition TWO_PI_macro :: real where
  "TWO_PI_macro = 6.28318530718"

text \<open>
  The C library's \<^verbatim>\<open>atoi\<close>: skip white space, read an optional sign, then the longest
  run of decimal digits; text with no digits there gives 0. (Overflow of the result is
  not modelled.)
\<close>

definition isspace :: "char \<Rightarrow> bool" where
  "isspace c = (of_char c \<in> {32, 9, 10, 11, 12, 13 :: nat})"

definition isdigit :: "char \<Rightarrow> bool" where
  "isdigit c = (48 \<le> (of_char c :: nat) \<and> (of_char c :: nat) \<le> 57)"

definition digits_value :: "string \<Rightarrow> int" where
  "digits_value ds = foldl (\<lambda>acc c. 10 * acc + (int (of_char c) - 48)) 0 ds"

definition atoi :: "string \<Rightarrow> int" where
  "atoi str =
     (case dropWhile isspace str of
        [] \<Rightarrow> 0
      | c # rest \<Rightarrow>
          if c = CHR ''-'' then - digits_value (takeWhile isdigit rest)
          else if c = CHR ''+'' then digits_value (takeWhile isdigit rest)
          else digits_value (takeWhile isdigit (c # rest)))"

subsection \<open>Knob behaviour configuration and operational state\<close>

record KnobSettings =
  name :: string
  is_bounded :: bool
  min_angle_rad :: real
  max_angle_rad :: real
  num_detents :: int
  detent_strength_P :: real
  steps_per_revolution :: int

definition MAX_PRESET_MODES :: int where
  "MAX_PRESET_MODES = 6"

text \<open>What the sketch writes to \<^verbatim>\<open>Serial\<close>: literal text, an integer, a float with a
  number of decimals, and the line end that \<^verbatim>\<open>println\<close> adds.\<close>

datatype serial_item = Str string | IntV int | FloatV real nat | EOL

text \<open>
  The globals of the sketch, with the three members of \<^verbatim>\<open>motor\<close> it reads or writes:
  \<^verbatim>\<open>motor.shaft_angle\<close> (refreshed by the FOC library from the sensor),
  \<^verbatim>\<open>motor.P_angle.P\<close>, and the argument of the last \<^verbatim>\<open>motor.move\<close>. \<open>serial\<close> is the
  output written so far.
\<close>

record knob_state =
  preset_modes :: "KnobSettings list"
  current_preset_mode_idx :: int
  current_knob_settings :: KnobSettings
  target_angle_motor :: real
  current_step_output :: int
  last_reported_step :: int
  motor_shaft_offset :: real
  motor_shaft_angle :: real
  motor_P_angle_P :: real
  motor_move_target :: real
  serial :: "serial_item list"

definition Serial_print :: "serial_item \<Rightarrow> knob_state \<Rightarrow> knob_state" where
  "Serial_print x s = s\<lparr>serial := serial s @ [x]\<rparr>"

definition Serial_println :: "serial_item \<Rightarrow> knob_state \<Rightarrow> knob_state" where
  "Serial_println x s = s\<lparr>serial := serial s @ [x, EOL]\<rparr>"

subsection \<open>The haptic logic and the step output of \<^verbatim>\<open>loop()\<close>\<close>

text \<open>
  \<^verbatim>\<open>loop()\<close> computes two values from \<^verbatim>\<open>current_knob_settings\<close>, the shaft angle and
  \<^verbatim>\<open>motor_shaft_offset\<close>: the local \<^verbatim>\<open>calculated_foc_target_angle\<close> (lines 143-179) and
  the local \<^verbatim>\<open>new_step_output\<close> (lines 186-203). Each is a function here, named after
  the local it computes.
\<close>

definition calculated_foc_target_angle :: "KnobSettings \<Rightarrow> real \<Rightarrow> real \<Rightarrow> real" where
  "calculated_foc_target_angle ks raw_shaft_angle offset =
     (if is_bounded ks then
        (let min_b = min_angle_rad ks;
             max_b = max_angle_rad ks;
             bounded_span = max_b - min_b
         in if bounded_span \<le> 0.001 then constrain raw_shaft_angle min_b max_b
            else if num_detents ks > 0 then
              (let angle_relative_to_min = raw_shaft_angle - min_b;
                   num_eff_detents = (if num_detents ks > 0 then num_detents ks else 1);
                   detent_spacing = bounded_span / real_of_int num_eff_detents;
                   detent_idx = round_macro (angle_relative_to_min / detent_spacing);
                   detent_idx' = constrain detent_idx 0 num_eff_detents;
                   target = min_b + real_of_int detent_idx' * detent_spacing
               in constrain target min_b max_b)
            else constrain raw_shaft_angle min_b max_b)
      else
        (let angle_rel_offset = raw_shaft_angle - offset
         in if num_detents ks > 0 then
              (let num_eff_detents = (if num_detents ks > 0 then num_detents ks else 1);
                   detent_spacing = TWO_PI_macro / real_of_int num_eff_detents;
                   target_rel_offset =
                     real_of_int (round_macro (angle_rel_offset / detent_spacing)) * detent_spacing
               in target_rel_offset + offset)
            else raw_shaft_angle))"

definition new_step_output :: "KnobSettings \<Rightarrow> real \<Rightarrow> real \<Rightarrow> int" where
  "new_step_output ks raw_shaft_angle offset =
     (if steps_per_revolution ks > 0 then
        (if is_bounded ks then
           (let min_b = min_angle_rad ks;
                max_b = max_angle_rad ks;
                bounded_span = max_b - min_b
            in if bounded_span > 0.001 then
                 (let angle_in_span = constrain (raw_shaft_angle - min_b) 0 bounded_span;
                      step_rad_in_bound = bounded_span / real_of_int (steps_per_revolution ks);
                      stp = round_macro (angle_in_span / step_rad_in_bound)
                  in constrain stp 0 (steps_per_revolution ks))
               else 0)
         else
           (let angle_rel_offset_steps = raw_shaft_angle - offset;
                step_rad_unbounded = TWO_PI_macro / real_of_int (steps_per_revolution ks)
            in round_macro (angle_rel_offset_steps / step_rad_unbounded)))
      else 0)"

text \<open>
  The rest of \<^verbatim>\<open>loop()\<close> after \<^verbatim>\<open>command.run()\<close>: set the gain, command the move, store
  the step and report it when it differs from \<^verbatim>\<open>last_reported_step\<close>.
\<close>

definition loop_body :: "knob_state \<Rightarrow> knob_state" where
  "loop_body s =
     (let raw_shaft_angle = motor_shaft_angle s;
          target = calculated_foc_target_angle (current_knob_settings s) raw_shaft_angle
                     (motor_shaft_offset s);
          s1 = s\<lparr>motor_P_angle_P := detent_strength_P (current_knob_settings s)\<rparr>;
          s2 = s1\<lparr>motor_move_target := target\<rparr>;
          new = new_step_output (current_knob_settings s2) raw_shaft_angle (motor_shaft_offset s2);
          s3 = s2\<lparr>current_step_output := new\<rparr>
      in if current_step_output s3 \<noteq> last_reported_step s3 then
           (Serial_println (IntV (current_step_output s3)) (Serial_print (Str ''STEP:'') s3))
             \<lparr>last_reported_step := current_step_output s3\<rparr>
         else s3)"

subsection \<open>Helper and callback functions (first listing)\<close>

text \<open>
  The callbacks registered with the Commander receive the text after the command
  letter. \<^verbatim>\<open>doCalibrate\<close> and \<^verbatim>\<open>doReportSettings\<close> never look at it, so their models
  take no text. \<^verbatim>\<open>atof\<close> is the C library's; no property below depends on how it
  reads a number, so the callbacks that use it take the conversion as the
  parameter \<open>atof\<close>.
\<close>

definition applyCurrentSettingsToMotor :: "knob_state \<Rightarrow> knob_state" where
  "applyCurrentSettingsToMotor s =
     s\<lparr>motor_P_angle_P := detent_strength_P (current_knob_settings s),
       last_reported_step := - 99999\<rparr>"

definition yes_no :: "bool \<Rightarrow> serial_item" where
  "yes_no b = Str (if b then ''YES'' else ''NO'')"

definition doReportSettings :: "knob_state \<Rightarrow> knob_state" where
  "doReportSettings s =
     (let ks = current_knob_settings s;
          s1 = Serial_println (Str ''--- Current Settings ---'') s;
          s2 = Serial_println (Str (name ks)) (Serial_print (Str ''Name: '') s1);
          s3 = Serial_println (yes_no (is_bounded ks)) (Serial_print (Str ''Bounded: '') s2);
          s4 = (if is_bounded ks then
                  (let t1 = Serial_print (Str ''Min Angle: '') s3;
                       t2 = Serial_print (FloatV (min_angle_rad ks) 4) t1;
                       t3 = Serial_println (Str '' rad'') t2;
                       t4 = Serial_print (Str ''Max Angle: '') t3;
                       t5 = Serial_print (FloatV (max_angle_rad ks) 4) t4
                   in Serial_println (Str '' rad'') t5)
                else s3);
          s5 = Serial_println (IntV (num_detents ks)) (Serial_print (Str ''Num Detents: '') s4);
          s6 = Serial_println (FloatV (detent_strength_P ks) 2)
                 (Serial_print (Str ''Detent Strength P: '') s5);
          s7 = Serial_println (IntV (steps_per_revolution ks))
                 (Serial_print (Str ''Steps/Revolution: '') s6)
      in Serial_println (Str ''------------------------'') s7)"

definition doSwitchPresetMode :: "string \<Rightarrow> knob_state \<Rightarrow> knob_state" where
  "doSwitchPresetMode cmd s =
     (let idx = atoi cmd
      in if idx \<ge> 0 \<and> idx < MAX_PRESET_MODES then
           (let s1 = s\<lparr>current_preset_mode_idx := idx\<rparr>;
                s2 = s1\<lparr>current_knob_settings := preset_modes s1 ! nat idx\<rparr>;
                s3 = applyCurrentSettingsToMotor s2;
                s4 = Serial_print (Str ''Preset Mode -> '') s3;
                s5 = Serial_println (Str (name (current_knob_settings s4))) s4
            in doReportSettings s5)
         else Serial_println (Str ''Error: Invalid preset index.'') s)"

definition doCalibrate :: "knob_state \<Rightarrow> knob_state" where
  "doCalibrate s =
     (if \<not> is_bounded (current_knob_settings s) then
        (let s1 = s\<lparr>motor_shaft_offset := motor_shaft_angle s\<rparr>;
             s2 = s1\<lparr>current_step_output := 0\<rparr>;
             s3 = s2\<lparr>last_reported_step := - 99999\<rparr>;
             s4 = Serial_print (Str ''Unbounded calibrated. Offset: '') s3
         in Serial_println (FloatV (motor_shaft_offset s4) 4) s4)
      else Serial_println
             (Str (''Info: Calibrate ('' @ [CHR 0x27] @ ''C'' @ [CHR 0x27] @ '') for unbounded modes.'')) s)"

definition set_name_Custom :: "knob_state \<Rightarrow> knob_state" where
  "set_name_Custom s = s\<lparr>current_knob_settings := (current_knob_settings s)\<lparr>name := ''Custom''\<rparr>\<rparr>"

definition doSetNumDetents :: "string \<Rightarrow> knob_state \<Rightarrow> knob_state" where
  "doSetNumDetents cmd s =
     (let val = atoi cmd
      in if val \<ge> 0 then
           (let s1 = s\<lparr>current_knob_settings := (current_knob_settings s)\<lparr>num_detents := val\<rparr>\<rparr>;
                s2 = set_name_Custom s1;
                s3 = applyCurrentSettingsToMotor s2;
                s4 = Serial_println (IntV val) (Serial_print (Str ''Detents set: '') s3)
            in doReportSettings s4)
         else Serial_println (Str ''Error: Detents must be >= 0.'') s)"

definition doSetDetentStrength :: "(string \<Rightarrow> real) \<Rightarrow> string \<Rightarrow> knob_state \<Rightarrow> knob_state" where
  "doSetDetentStrength atof cmd s =
     (let val = atof cmd
      in if val \<ge> 0 then
           (let s1 = s\<lparr>current_knob_settings :=
                        (current_knob_settings s)\<lparr>detent_strength_P := val\<rparr>\<rparr>;
                s2 = set_name_Custom s1;
                s3 = applyCurrentSettingsToMotor s2;
                s4 = Serial_println (FloatV val 2) (Serial_print (Str ''Detent P set: '') s3)
            in doReportSettings s4)
         else Serial_println (Str ''Error: Strength P must be >= 0.'') s)"

definition doSetStepsPerRev :: "string \<Rightarrow> knob_state \<Rightarrow> knob_state" where
  "doSetStepsPerRev cmd s =
     (let val = atoi cmd
      in if val \<ge> 0 then
           (let s1 = s\<lparr>current_knob_settings :=
                        (current_knob_settings s)\<lparr>steps_per_revolution := val\<rparr>\<rparr>;
                s2 = set_name_Custom s1;
                s3 = applyCurrentSettingsToMotor s2;
                s4 = Serial_println (IntV val) (Serial_print (Str ''Steps/Rev set: '') s3)
            in doReportSettings s4)
         else Serial_println (Str ''Error: Steps/Rev must be >= 0.'') s)"

definition doSetBounded :: "string \<Rightarrow> knob_state \<Rightarrow> knob_state" where
  "doSetBounded cmd s =
     (let val = atoi cmd
      in if val = 0 \<or> val = 1 then
           (let s1 = s\<lparr>current_knob_settings :=
                        (current_knob_settings s)\<lparr>is_bounded := (val = 1)\<rparr>\<rparr>;
                s2 = set_name_Custom s1;
                s3 = applyCurrentSettingsToMotor s2;
                s4 = Serial_println (yes_no (is_bounded (current_knob_settings s3)))
                       (Serial_print (Str ''Bounded set: '') s3);
                s5 = (if \<not> is_bounded (current_knob_settings s4)
                      then Serial_println
                             (Str (''Info: Now unbounded. Use '' @ [CHR 0x27] @ ''C'' @ [CHR 0x27] @ '' to calibrate.'')) s4
                      else s4)
            in doReportSettings s5)
         else Serial_println (Str ''Error: Bounded value must be 0 or 1.'') s)"

definition doSetMinAngle :: "(string \<Rightarrow> real) \<Rightarrow> string \<Rightarrow> knob_state \<Rightarrow> knob_state" where
  "doSetMinAngle atof cmd s =
     (let val = atof cmd;
          s1 = s\<lparr>current_knob_settings := (current_knob_settings s)\<lparr>min_angle_rad := val\<rparr>\<rparr>;
          s2 = set_name_Custom s1;
          s3 = applyCurrentSettingsToMotor s2;
          s4 = Serial_println (FloatV val 4) (Serial_print (Str ''Min Angle set: '') s3)
      in doReportSettings s4)"

definition doSetMaxAngle :: "(string \<Rightarrow> real) \<Rightarrow> string \<Rightarrow> knob_state \<Rightarrow> knob_state" where
  "doSetMaxAngle atof cmd s =
     (let val = atof cmd;
          s1 = s\<lparr>current_knob_settings := (current_knob_settings s)\<lparr>max_angle_rad := val\<rparr>\<rparr>;
          s2 = set_name_Custom s1;
          s3 = applyCurrentSettingsToMotor s2;
          s4 = Serial_println (FloatV val 4) (Serial_print (Str ''Max Angle set: '') s3)
      in doReportSettings s4)"

subsection \<open>The callbacks of the second listing that differ\<close>

text \<open>
  In the second listing \<^verbatim>\<open>doSetStepsPerRev\<close> (lines 680-691) accepts only \<^verbatim>\<open>val > 0\<close>;
  \<^verbatim>\<open>applyCurrentSettingsToMotor\<close> is the same; \<^verbatim>\<open>doReportSettings\<close> (lines 639-651)
  prints other labels, and floats with \<^verbatim>\<open>println\<close>'s default of two decimals.
\<close>

definition doReportSettings_v2 :: "knob_state \<Rightarrow> knob_state" where
  "doReportSettings_v2 s =
     (let ks = current_knob_settings s;
          s1 = Serial_println (Str ''--- Current Knob Settings ---'') s;
          s2 = Serial_println (Str (name ks)) (Serial_print (Str ''Name: '') s1);
          s3 = Serial_println (yes_no (is_bounded ks)) (Serial_print (Str ''Bounded: '') s2);
          s4 = (if is_bounded ks then
                  (let t1 = Serial_print (Str ''Min Angle (rad): '') s3;
                       t2 = Serial_println (FloatV (min_angle_rad ks) 2) t1;
                       t3 = Serial_print (Str ''Max Angle (rad): '') t2
                   in Serial_println (FloatV (max_angle_rad ks) 2) t3)
                else s3);
          s5 = Serial_println (IntV (num_detents ks)) (Serial_print (Str ''Num Detents: '') s4);
          s6 = Serial_println (FloatV (detent_strength_P ks) 2)
                 (Serial_print (Str ''Detent Strength (P): '') s5);
          s7 = Serial_println (IntV (steps_per_revolution ks))
                 (Serial_print (Str ''Steps/Revolution: '') s6)
      in Serial_println (Str ''-----------------------------'') s7)"

definition doSetStepsPerRev_v2 :: "string \<Rightarrow> knob_state \<Rightarrow> knob_state" where
  "doSetStepsPerRev_v2 cmd s =
     (let val = atoi cmd
      in if val > 0 then
           (let s1 = s\<lparr>current_knob_settings :=
                        (current_knob_settings s)\<lparr>steps_per_revolution := val\<rparr>\<rparr>;
                s2 = set_name_Custom s1;
                s3 = applyCurrentSettingsToMotor s2;
                s4 = Serial_print (Str ''Steps/Revolution set to: '') s3;
                s5 = Serial_println (IntV (steps_per_revolution (current_knob_settings s4))) s4
            in doReportSettings_v2 s5)
         else Serial_println (Str ''Invalid steps/rev value (must be > 0).'') s)"

subsection \<open>Command dispatch and one pass of \<^verbatim>\<open>loop()\<close>\<close>

text \<open>
  \<^verbatim>\<open>setup()\<close> registers nine callbacks with the Commander under the letters
  M, C, S, d, p, r, b, n and x. \<^verbatim>\<open>command.run()\<close> calls the callback of each complete
  command line that has arrived, in order, with the text after the letter.
\<close>

datatype command =
    Cmd_M string | Cmd_C | Cmd_S | Cmd_d string | Cmd_p string
  | Cmd_r string | Cmd_b string | Cmd_n string | Cmd_x string

fun dispatch :: "(string \<Rightarrow> real) \<Rightarrow> command \<Rightarrow> knob_state \<Rightarrow> knob_state" where
  "dispatch atof (Cmd_M cmd) s = doSwitchPresetMode cmd s"
| "dispatch atof Cmd_C s = doCalibrate s"
| "dispatch atof Cmd_S s = doReportSettings s"
| "dispatch atof (Cmd_d cmd) s = doSetNumDetents cmd s"
| "dispatch atof (Cmd_p cmd) s = doSetDetentStrength atof cmd s"
| "dispatch atof (Cmd_r cmd) s = doSetStepsPerRev cmd s"
| "dispatch atof (Cmd_b cmd) s = doSetBounded cmd s"
| "dispatch atof (Cmd_n cmd) s = doSetMinAngle atof cmd s"
| "dispatch atof (Cmd_x cmd) s = doSetMaxAngle atof cmd s"

fun command_run :: "(string \<Rightarrow> real) \<Rightarrow> command list \<Rightarrow> knob_state \<Rightarrow> knob_state" where
  "command_run atof [] s = s"
| "command_run atof (c # cs) s = command_run atof cs (dispatch atof c s)"

text \<open>
  One pass of \<^verbatim>\<open>loop()\<close>: the pending commands run first, then the haptic logic and
  the step report, both reading the same \<^verbatim>\<open>motor.shaft_angle\<close>. The FOC library
  changes \<^verbatim>\<open>motor.shaft_angle\<close> between passes; \<open>sense\<close> is that change.
\<close>

definition loop :: "(string \<Rightarrow> real) \<Rightarrow> command list \<Rightarrow> knob_state \<Rightarrow> knob_state" where
  "loop atof pending s = loop_body (command_run atof pending s)"

definition sense :: "real \<Rightarrow> knob_state \<Rightarrow> knob_state" where
  "sense angle s = s\<lparr>motor_shaft_angle := angle\<rparr>"

subsection \<open>The presets and the state that \<^verbatim>\<open>setup()\<close> leaves\<close>

text \<open>
  The six presets of the first listing. \<^verbatim>\<open>preset_modes\<close> is a global, so the angles
  that \<^verbatim>\<open>setup()\<close> does not assign (unbounded presets) are 0.
\<close>

definition setup_presets :: "KnobSettings list" where
  "setup_presets =
     [\<lparr>name = ''Unbounded Smooth'', is_bounded = False, min_angle_rad = 0, max_angle_rad = 0,
       num_detents = 0, detent_strength_P = 10, steps_per_revolution = 360\<rparr>,
      \<lparr>name = ''Unbounded 12 Detents'', is_bounded = False, min_angle_rad = 0, max_angle_rad = 0,
       num_detents = 12, detent_strength_P = 25, steps_per_revolution = 12\<rparr>,
      \<lparr>name = ''Bounded 0-180deg, 8 Det'', is_bounded = True, min_angle_rad = 0,
       max_angle_rad = PI_macro,
       num_detents = 8, detent_strength_P = 15, steps_per_revolution = 8\<rparr>,
      \<lparr>name = ''Volume Knob (0-100)'', is_bounded = True, min_angle_rad = 0,
       max_angle_rad = TWO_PI_macro,
       num_detents = 100, detent_strength_P = 25, steps_per_revolution = 100\<rparr>,
      \<lparr>name = ''Fine Adjust Unbounded'', is_bounded = False, min_angle_rad = 0, max_angle_rad = 0,
       num_detents = 72, detent_strength_P = 30, steps_per_revolution = 72\<rparr>,
      \<lparr>name = ''Switch (4-pos)'', is_bounded = True, min_angle_rad = 0, max_angle_rad = 1.57,
       num_detents = 3, detent_strength_P = 30, steps_per_revolution = 3\<rparr>]"

text \<open>
  The globals when \<^verbatim>\<open>setup()\<close> returns, for a shaft at \<open>angle\<close>: preset 0 is loaded and
  applied. The output written during \<^verbatim>\<open>setup()\<close> is not kept: \<open>serial\<close> starts empty.
\<close>

definition after_setup :: "real \<Rightarrow> knob_state" where
  "after_setup angle =
     applyCurrentSettingsToMotor
       \<lparr>preset_modes = setup_presets,
        current_preset_mode_idx = 0,
        current_knob_settings = setup_presets ! 0,
        target_angle_motor = 0,
        current_step_output = 0,
        last_reported_step = - 99999,
        motor_shaft_offset = 0,
        motor_shaft_angle = angle,
        motor_P_angle_P = 0,
        motor_move_target = 0,
        serial = []\<rparr>"

text \<open>
  The Arduino runtime calls \<^verbatim>\<open>loop()\<close> again and again. A run is given by what each
  pass finds: the shaft angle and the command lines that have arrived.
\<close>

fun run :: "(string \<Rightarrow> real) \<Rightarrow> (real \<times> command list) list \<Rightarrow> knob_state \<Rightarrow> knob_state" where
  "run atof [] s = s"
| "run atof ((angle, pending) # rest) s = run atof rest (loop atof pending (sense angle s))"

subsection \<open>Binary32 arithmetic\<close>

text \<open>
  A finite binary32 value is modelled by the real number it denotes. \<open>binary32 x\<close> is
  \<open>x\<close> rounded to the nearest number with a significand of 24 bits and an exponent
  of at least -126 (subnormal numbers included), a tie going to the even significand.
  \<open>float_exponent x\<close> is the exponent of \<open>x\<close>: the largest \<open>e\<close> from -125 to 127 with
  \<open>2\<^sup>e \<le> |x|\<close>, and -126 below that. Magnitudes of \<open>2\<^sup>1\<^sup>2\<^sup>8\<close> and more, where the
  machine gives an infinity, and NaN are not modelled; the statements below bound the
  magnitude of their inputs instead.
\<close>

definition round_even :: "real \<Rightarrow> int" where
  "round_even y = (let f = \<lfloor>y\<rfloor>; d = y - real_of_int f
                  in if d < 1/2 then f else if d > 1/2 then f + 1
                     else if even f then f else f + 1)"

fun exponent_from :: "nat \<Rightarrow> real \<Rightarrow> int" where
  "exponent_from 0 x = - 126"
| "exponent_from (Suc n) x =
     (if 2 powi (int n - 125) \<le> \<bar>x\<bar> then int n - 125 else exponent_from n x)"

definition float_exponent :: "real \<Rightarrow> int" where
  "float_exponent x = exponent_from 253 x"

definition binary32 :: "real \<Rightarrow> real" where
  "binary32 x = (let u = 2 powi (float_exponent x - 23)
                 in real_of_int (round_even (x / u)) * u)"

text \<open>
  Each \<^verbatim>\<open>float\<close> operation is the exact operation followed by the rounding, as IEEE 754
  prescribes; so is the conversion of an integer to \<^verbatim>\<open>float\<close>. The cast \<^verbatim>\<open>(long)\<close>
  truncates towards zero, and is undefined in C for a value outside the range of
  \<^verbatim>\<open>long\<close>: that is \<open>None\<close>. In \<^verbatim>\<open>round\<close> the constant 0.5 is a \<^verbatim>\<open>double\<close>, which is
  binary32 on this target, so the sum is rounded too.
\<close>

definition fadd :: "real \<Rightarrow> real \<Rightarrow> real" where
  "fadd x y = binary32 (x + y)"

definition fsub :: "real \<Rightarrow> real \<Rightarrow> real" where
  "fsub x y = binary32 (x - y)"

definition fmul :: "real \<Rightarrow> real \<Rightarrow> real" where
  "fmul x y = binary32 (x * y)"

definition fdiv :: "real \<Rightarrow> real \<Rightarrow> real" where
  "fdiv x y = binary32 (x / y)"

definition float_of_long :: "int \<Rightarrow> real" where
  "float_of_long n = binary32 (real_of_int n)"

definition long_of_float :: "real \<Rightarrow> int option" where
  "long_of_float x =
     (let t = trunc_long x
      in if - 2147483648 \<le> t \<and> t \<le> 2147483647 then Some t else None)"

definition round_macro_f32 :: "real \<Rightarrow> int option" where
  "round_macro_f32 x =
     (if x \<ge> 0 then long_of_float (fadd x 0.5) else long_of_float (fsub x 0.5))"

text \<open>
  The two computations of \<^verbatim>\<open>loop()\<close> (lines 143-179 and 186-203) once more, now with
  every operation in binary32. The literals \<^verbatim>\<open>0.001f\<close> and \<^verbatim>\<open>_2PI\<close> are the binary32
  values nearest to the decimals.
\<close>

definition calculated_foc_target_angle_f32 :: "KnobSettings \<Rightarrow> real \<Rightarrow> real \<Rightarrow> real option" where
  "calculated_foc_target_angle_f32 ks raw_shaft_angle offset =
     (if is_bounded ks then
        (let min_b = min_angle_rad ks;
             max_b = max_angle_rad ks;
             bounded_span = fsub max_b min_b
         in if bounded_span \<le> binary32 0.001 then Some (constrain raw_shaft_angle min_b max_b)
            else if num_detents ks > 0 then
              (let angle_relative_to_min = fsub raw_shaft_angle min_b;
                   num_eff_detents = (if num_detents ks > 0 then num_detents ks else 1);
                   detent_spacing = fdiv bounded_span (float_of_long num_eff_detents)
               in case round_macro_f32 (fdiv angle_relative_to_min detent_spacing) of
                    None \<Rightarrow> None
                  | Some detent_idx \<Rightarrow>
                      (let detent_idx' = constrain detent_idx 0 num_eff_detents;
                           target = fadd min_b (fmul (float_of_long detent_idx') detent_spacing)
                       in Some (constrain target min_b max_b)))
            else Some (constrain raw_shaft_angle min_b max_b))
      else
        (let angle_rel_offset = fsub raw_shaft_angle offset
         in if num_detents ks > 0 then
              (let num_eff_detents = (if num_detents ks > 0 then num_detents ks else 1);
                   detent_spacing = fdiv (binary32 TWO_PI_macro) (float_of_long num_eff_detents)
               in case round_macro_f32 (fdiv angle_rel_offset detent_spacing) of
                    None \<Rightarrow> None
                  | Some idx \<Rightarrow>
                      Some (fadd (fmul (float_of_long idx) detent_spacing) offset))
            else Some raw_shaft_angle))"

definition new_step_output_f32 :: "KnobSettings \<Rightarrow> real \<Rightarrow> real \<Rightarrow> int option" where
  "new_step_output_f32 ks raw_shaft_angle offset =
     (if steps_per_revolution ks > 0 then
        (if is_bounded ks then
           (let min_b = min_angle_rad ks;
                max_b = max_angle_rad ks;
                bounded_span = fsub max_b min_b
            in if bounded_span > binary32 0.001 then
                 (let angle_in_span = constrain (fsub raw_shaft_angle min_b) 0 bounded_span;
                      step_rad_in_bound =
                        fdiv bounded_span (float_of_long (steps_per_revolution ks))
                  in case round_macro_f32 (fdiv angle_in_span step_rad_in_bound) of
                       None \<Rightarrow> None
                     | Some stp \<Rightarrow> Some (constrain stp 0 (steps_per_revolution ks)))
               else Some 0)
         else
           (let angle_rel_offset_steps = fsub raw_shaft_angle offset;
                step_rad_unbounded =
                  fdiv (binary32 TWO_PI_macro) (float_of_long (steps_per_revolution ks))
            in round_macro_f32 (fdiv angle_rel_offset_steps step_rad_unbounded)))
      else Some 0)"

text \<open>
  A configuration as it is stored: each \<^verbatim>\<open>float\<close> member holds the binary32 value
  nearest to what was assigned.
\<close>

definition store_f32 :: "KnobSettings \<Rightarrow> KnobSettings" where
  "store_f32 ks =
     ks\<lparr>min_angle_rad := binary32 (min_angle_rad ks),
        max_angle_rad := binary32 (max_angle_rad ks),
        detent_strength_P := binary32 (detent_strength_P ks)\<rparr>"

text \<open>The inputs of the statements: binary32 values of magnitude at most \<open>2\<^sup>1\<^sup>0\<^sup>0\<close>,
  from which no operation of the two computations reaches an infinity.\<close>

definition in_float_range :: "real \<Rightarrow> bool" where
  "in_float_range x = (binary32 x = x \<and> \<bar>x\<bar> \<le> 2 ^ 100)"

subsection \<open>Configurations used as examples\<close>


text \<open>A bounded configuration with a span of 0.0005 rad, below the 0.001 threshold.\<close>

definition degenerate_span_settings :: KnobSettings where
  "degenerate_span_settings =
     \<lparr>name = ''Custom'', is_bounded = True, min_angle_rad = 1, max_angle_rad = 1.0005,
      num_detents = 8, detent_strength_P = 15, steps_per_revolution = 8\<rparr>"

text \<open>
  With the first preset (unbounded, 360 steps per turn) and offset 0, the shaft angle at
  the centre of step \<open>n\<close>.
\<close>

definition angle_of_step :: "int \<Rightarrow> real" where
  "angle_of_step n = real_of_int n * (TWO_PI_macro / 360)"

text \<open>
  The third preset as stored, with 19 detents: the configuration after the commands
  \<^verbatim>\<open>M2\<close> and \<^verbatim>\<open>d19\<close>.
\<close>

definition bounded_19_detents :: KnobSettings where
  "bounded_19_detents = (store_f32 (setup_presets ! 2))\<lparr>num_detents := 19, name := ''Custom''\<rparr>"

section \<open>Properties\<close>

subsection \<open>Rounding and clamping\<close>

lemma round_macro_of_int: "round_macro (real_of_int n) = n"
proof (cases "n \<ge> 0")
  case True
  then have "\<lfloor>real_of_int n + 0.5\<rfloor> = n" by linarith
  with True show ?thesis by (simp add: round_macro_def trunc_long_def)
next
  case False
  then have "\<lceil>real_of_int n - 0.5\<rceil> = n" by linarith
  with False show ?thesis by (simp add: round_macro_def trunc_long_def)
qed

lemma TWO_PI_macro_pos: "0 < TWO_PI_macro"
  by (simp add: TWO_PI_macro_def)


lemma constrain_id: "low \<le> amt \<Longrightarrow> amt \<le> high \<Longrightarrow> constrain amt low high = amt"
  by (auto simp: constrain_def)

subsection \<open>The step output in the exact reading\<close>

lemma new_step_output_unbounded_onto:
  assumes "steps_per_revolution ks > 0" "\<not> is_bounded ks"
  shows "new_step_output ks
           (off + real_of_int n * (TWO_PI_macro / real_of_int (steps_per_revolution ks))) off = n"
proof -
  have "TWO_PI_macro / real_of_int (steps_per_revolution ks) \<noteq> 0"
    using assms TWO_PI_macro_pos by simp
  then have "(off + real_of_int n * (TWO_PI_macro / real_of_int (steps_per_revolution ks)) - off)
      / (TWO_PI_macro / real_of_int (steps_per_revolution ks)) = real_of_int n"
    by simp
  then show ?thesis using assms
    by (simp add: new_step_output_def Let_def round_macro_of_int del: of_int_mult)
qed

subsection \<open>Bounded mode: where the target can lie\<close>






subsection \<open>Bounded mode with a span of at most 0.001\<close>

lemma target_degenerate:
  "is_bounded ks \<Longrightarrow> max_angle_rad ks - min_angle_rad ks \<le> 0.001 \<Longrightarrow>
   calculated_foc_target_angle ks a off = constrain a (min_angle_rad ks) (max_angle_rad ks)"
  by (simp add: calculated_foc_target_angle_def Let_def)

lemma step_degenerate:
  "is_bounded ks \<Longrightarrow> max_angle_rad ks - min_angle_rad ks \<le> 0.001 \<Longrightarrow>
   new_step_output ks a off = 0"
  by (simp add: new_step_output_def Let_def)

text \<open>
  Claim C6. For bounded settings with \<open>max - min \<le> 0.001\<close> and every shaft angle, the
  target is the shaft angle put through \<^verbatim>\<open>constrain\<close> with \<open>min\<close> and \<open>max\<close>, and the
  step output is 0. Neither value depends on a detent spacing or a step width: no
  quotient by the span is formed on this path, and both functions are total.
\<close>

theorem degenerate_span_fallback:
  assumes "is_bounded ks"
    and "max_angle_rad ks - min_angle_rad ks \<le> 0.001"
  shows "calculated_foc_target_angle ks a off = constrain a (min_angle_rad ks) (max_angle_rad ks)
     \<and> new_step_output ks a off = 0"
  using target_degenerate [OF assms] step_degenerate [OF assms] by blast

text \<open>With \<open>min = 1.0\<close> and \<open>max = 1.0005\<close>: shafts at 5, at 1.0002 and at -3.\<close>

theorem degenerate_span_fallback_witness:
  "calculated_foc_target_angle degenerate_span_settings 5 0 = 1.0005
   \<and> new_step_output degenerate_span_settings 5 0 = 0
   \<and> calculated_foc_target_angle degenerate_span_settings 1.0002 0 = 1.0002
   \<and> new_step_output degenerate_span_settings 1.0002 0 = 0
   \<and> calculated_foc_target_angle degenerate_span_settings (- 3) 0 = 1
   \<and> new_step_output degenerate_span_settings (- 3) 0 = 0"
proof -
  have b: "is_bounded degenerate_span_settings"
    and sp: "max_angle_rad degenerate_span_settings - min_angle_rad degenerate_span_settings \<le> 0.001"
    by (simp_all add: degenerate_span_settings_def)
  from degenerate_span_fallback [OF b sp, of 5 0]
    degenerate_span_fallback [OF b sp, of "1.0002" 0]
    degenerate_span_fallback [OF b sp, of "- 3" 0]
  show ?thesis
    by (simp add: degenerate_span_settings_def constrain_def)
qed

subsection \<open>What one pass and each callback change\<close>

lemma serial_simps [simp]:
  "Serial_print x s = s\<lparr>serial := serial s @ [x]\<rparr>"
  "Serial_println x s = s\<lparr>serial := serial s @ [x, EOL]\<rparr>"
  by (simp_all add: Serial_print_def Serial_println_def)

lemma loop_body_frame:
  "current_knob_settings (loop_body s) = current_knob_settings s"
  "motor_shaft_offset (loop_body s) = motor_shaft_offset s"
  "preset_modes (loop_body s) = preset_modes s"
  "current_preset_mode_idx (loop_body s) = current_preset_mode_idx s"
  "target_angle_motor (loop_body s) = target_angle_motor s"
  "motor_shaft_angle (loop_body s) = motor_shaft_angle s"
  by (simp_all add: loop_body_def Let_def)

lemma loop_body_step:
  "current_step_output (loop_body s) =
     new_step_output (current_knob_settings s) (motor_shaft_angle s) (motor_shaft_offset s)"
  "last_reported_step (loop_body s) =
     new_step_output (current_knob_settings s) (motor_shaft_angle s) (motor_shaft_offset s)"
  by (simp_all add: loop_body_def Let_def)

lemma loop_body_serial:
  "serial (loop_body s) =
     (if new_step_output (current_knob_settings s) (motor_shaft_angle s) (motor_shaft_offset s)
           \<noteq> last_reported_step s
      then serial s @ [Str ''STEP:'',
             IntV (new_step_output (current_knob_settings s) (motor_shaft_angle s) (motor_shaft_offset s)), EOL]
      else serial s)"
  by (simp add: loop_body_def Let_def)

lemma doCalibrate_bounded:
  "is_bounded (current_knob_settings s) \<Longrightarrow>
   doCalibrate s = s\<lparr>serial := serial s @
      [Str (''Info: Calibrate ('' @ [CHR 0x27] @ ''C'' @ [CHR 0x27] @ '') for unbounded modes.''), EOL]\<rparr>"
  by (simp add: doCalibrate_def)

lemma doCalibrate_unbounded:
  "\<not> is_bounded (current_knob_settings s) \<Longrightarrow>
   doCalibrate s = s\<lparr>motor_shaft_offset := motor_shaft_angle s, current_step_output := 0,
      last_reported_step := - 99999,
      serial := serial s @ [Str ''Unbounded calibrated. Offset: '', FloatV (motor_shaft_angle s) 4, EOL]\<rparr>"
  by (simp add: doCalibrate_def Let_def)

lemma step_at_offset: "new_step_output ks a a = 0 \<or> is_bounded ks"
  by (simp add: new_step_output_def Let_def round_macro_def trunc_long_def)

lemma doSwitchPresetMode_rejected:
  "\<not> (0 \<le> atoi cmd \<and> atoi cmd < 6) \<Longrightarrow>
   doSwitchPresetMode cmd s = s\<lparr>serial := serial s @ [Str ''Error: Invalid preset index.'', EOL]\<rparr>"
  by (auto simp add: doSwitchPresetMode_def MAX_PRESET_MODES_def Let_def)

lemma doSetNumDetents_rejected:
  "atoi cmd < 0 \<Longrightarrow>
   doSetNumDetents cmd s = s\<lparr>serial := serial s @ [Str ''Error: Detents must be >= 0.'', EOL]\<rparr>"
  by (simp add: doSetNumDetents_def Let_def)

lemma doSetDetentStrength_rejected:
  "atof cmd < 0 \<Longrightarrow>
   doSetDetentStrength atof cmd s = s\<lparr>serial := serial s @ [Str ''Error: Strength P must be >= 0.'', EOL]\<rparr>"
  by (simp add: doSetDetentStrength_def Let_def)

lemma doSetStepsPerRev_rejected:
  "atoi cmd < 0 \<Longrightarrow>
   doSetStepsPerRev cmd s = s\<lparr>serial := serial s @ [Str ''Error: Steps/Rev must be >= 0.'', EOL]\<rparr>"
  by (simp add: doSetStepsPerRev_def Let_def)

lemma doSetBounded_rejected:
  "atoi cmd \<noteq> 0 \<Longrightarrow> atoi cmd \<noteq> 1 \<Longrightarrow>
   doSetBounded cmd s = s\<lparr>serial := serial s @ [Str ''Error: Bounded value must be 0 or 1.'', EOL]\<rparr>"
  by (simp add: doSetBounded_def Let_def)

lemma doSetStepsPerRev_v2_rejected:
  "atoi cmd \<le> 0 \<Longrightarrow>
   doSetStepsPerRev_v2 cmd s = s\<lparr>serial := serial s @ [Str ''Invalid steps/rev value (must be > 0).'', EOL]\<rparr>"
  by (simp add: doSetStepsPerRev_v2_def Let_def)

lemma doReportSettings_frame:
  "current_knob_settings (doReportSettings s) = current_knob_settings s"
  "last_reported_step (doReportSettings s) = last_reported_step s"
  "motor_shaft_offset (doReportSettings s) = motor_shaft_offset s"
  "motor_shaft_angle (doReportSettings s) = motor_shaft_angle s"
  "current_step_output (doReportSettings s) = current_step_output s"
  by (simp_all add: doReportSettings_def Let_def)

lemma sentinel_after_mutation:
  "0 \<le> atoi cmd \<and> atoi cmd < 6 \<Longrightarrow> last_reported_step (doSwitchPresetMode cmd s) = - 99999"
  "0 \<le> atoi cmd \<Longrightarrow> last_reported_step (doSetNumDetents cmd s) = - 99999"
  "0 \<le> atof cmd \<Longrightarrow> last_reported_step (doSetDetentStrength atof cmd s) = - 99999"
  "0 \<le> atoi cmd \<Longrightarrow> last_reported_step (doSetStepsPerRev cmd s) = - 99999"
  "atoi cmd = 0 \<or> atoi cmd = 1 \<Longrightarrow> last_reported_step (doSetBounded cmd s) = - 99999"
  "last_reported_step (doSetMinAngle atof cmd s) = - 99999"
  "last_reported_step (doSetMaxAngle atof cmd s) = - 99999"
  "\<not> is_bounded (current_knob_settings s) \<Longrightarrow> last_reported_step (doCalibrate s) = - 99999"
  by (simp_all add: doSwitchPresetMode_def doSetNumDetents_def doSetDetentStrength_def
      doSetStepsPerRev_def doSetBounded_def doSetMinAngle_def doSetMaxAngle_def doCalibrate_def
      MAX_PRESET_MODES_def Let_def doReportSettings_frame applyCurrentSettingsToMotor_def
      set_name_Custom_def)

lemma atoi_examples:
  "atoi ''abc'' = 0" "atoi ''-3'' = - 3" "atoi ''7'' = 7" "atoi ''0'' = 0" "atoi ''1'' = 1"
  "atoi ''2'' = 2" "atoi ''5'' = 5"
  by (simp_all add: atoi_def isspace_def isdigit_def digits_value_def)

lemma after_setup_fields:
  "current_knob_settings (after_setup a) = setup_presets ! 0"
  "motor_shaft_offset (after_setup a) = 0"
  "last_reported_step (after_setup a) = - 99999"
  "serial (after_setup a) = []"
  by (simp_all add: after_setup_def applyCurrentSettingsToMotor_def)

lemma run_quiet_frame:
  "\<forall>p\<in>set passes. snd p = [] \<Longrightarrow>
   current_knob_settings (run atof passes s) = current_knob_settings s"
proof (induction passes arbitrary: s)
  case Nil
  then show ?case by simp
next
  case (Cons p passes)
  obtain a c where p: "p = (a, c)" by (cases p)
  with Cons.prems have c: "c = []" by simp
  have "current_knob_settings (run atof passes (loop atof [] (sense a s)))
      = current_knob_settings (loop atof [] (sense a s))"
    using Cons.prems by (intro Cons.IH) simp
  then show ?case
    by (simp add: p c loop_def loop_body_frame sense_def)
qed

lemma run_snoc: "run atof (passes @ [p]) s = loop atof (snd p) (sense (fst p) (run atof passes s))"
  by (induction passes arbitrary: s) (auto simp: split_def, (cases p; simp))

lemma no_steps_no_output:
  assumes "steps_per_revolution (current_knob_settings s) \<le> 0"
    and "\<forall>p\<in>set passes. snd p = []" and "passes \<noteq> []"
  shows "current_step_output (run atof passes s) = 0"
proof -
  obtain qs q where ps: "passes = qs @ [q]"
    using assms(3) by (metis rev_exhaust)
  have q: "snd q = []" and qs: "\<forall>p\<in>set qs. snd p = []" using assms(2) by (simp_all add: ps)
  have "current_knob_settings (run atof qs s) = current_knob_settings s"
    using qs by (rule run_quiet_frame)
  then show ?thesis
    using assms(1) by (simp add: ps run_snoc q loop_def loop_body_step sense_def new_step_output_def)
qed

subsection \<open>Reporting a step only when it changed\<close>

text \<open>
  Two passes in a row without a command that compute the same step: the second writes
  nothing and leaves \<^verbatim>\<open>last_reported_step\<close> alone.
\<close>

lemma same_step_is_silent:
  assumes "current_step_output (loop atof [] (sense a2 (loop atof [] (sense a1 s))))
         = current_step_output (loop atof [] (sense a1 s))"
  shows "serial (loop atof [] (sense a2 (loop atof [] (sense a1 s)))) = serial (loop atof [] (sense a1 s))"
    and "last_reported_step (loop atof [] (sense a2 (loop atof [] (sense a1 s))))
         = last_reported_step (loop atof [] (sense a1 s))"
  using assms
  by (simp_all add: loop_def sense_def loop_body_step loop_body_serial loop_body_frame)

text \<open>
  Every accepted mutation stores -99999 in \<^verbatim>\<open>last_reported_step\<close>
  (\<open>sentinel_after_mutation\<close>), and a pass that starts from there writes a
  \<^verbatim>\<open>STEP:\<close> line whenever the step it computes is not -99999 itself.
\<close>

lemma forced_report_unless_sentinel:
  assumes "last_reported_step s = - 99999"
    and "new_step_output (current_knob_settings s) (motor_shaft_angle s) (motor_shaft_offset s) \<noteq> - 99999"
  shows "serial (loop_body s) = serial s @ [Str ''STEP:'',
       IntV (new_step_output (current_knob_settings s) (motor_shaft_angle s) (motor_shaft_offset s)), EOL]"
  using assms by (simp add: loop_body_serial)

lemma step_sentinel_pass:
  "new_step_output (setup_presets ! 0) (angle_of_step n) 0 = n"
  using new_step_output_unbounded_onto [of "setup_presets ! 0" 0 n]
  by (simp add: setup_presets_def angle_of_step_def)

text \<open>
  Claim C5: after a configuration mutation the very next pass reports the step, whatever
  its value. The code does not do so when the step is -99999, which unbounded mode can
  reach: -99999 is also the value that marks "nothing reported yet". From the state
  after \<^verbatim>\<open>setup()\<close>, the first pass finds the shaft at step -99998 and reports it. The
  second pass finds the command \<^verbatim>\<open>d5\<close> and the shaft at step -99999: the step has
  changed and the configuration has changed, yet the pass writes nothing after the
  output of the command itself.
\<close>

theorem sentinel_collision_suppresses_report:
  "current_step_output (run (\<lambda>_. 0) [(angle_of_step (- 99998), [])] (after_setup 0)) = - 99998
   \<and> serial (run (\<lambda>_. 0) [(angle_of_step (- 99998), [])] (after_setup 0))
       = [Str ''STEP:'', IntV (- 99998), EOL]
   \<and> current_step_output
        (run (\<lambda>_. 0) [(angle_of_step (- 99998), []),
                        (angle_of_step (- 99999), [Cmd_d ''5''])] (after_setup 0)) = - 99999
   \<and> serial
        (run (\<lambda>_. 0) [(angle_of_step (- 99998), []),
                        (angle_of_step (- 99999), [Cmd_d ''5''])] (after_setup 0))
       = serial
           (doSetNumDetents ''5''
              (sense (angle_of_step (- 99999))
                 (run (\<lambda>_. 0) [(angle_of_step (- 99998), [])] (after_setup 0))))"
proof -
  define s1 where "s1 = run (\<lambda>_. 0) [(angle_of_step (- 99998), [])] (after_setup 0)"
  define m where "m = doSetNumDetents ''5'' (sense (angle_of_step (- 99999)) s1)"
  have s1: "s1 = loop_body (sense (angle_of_step (- 99998)) (after_setup 0))"
    by (simp add: s1_def loop_def)
  have c1: "current_step_output s1 = - 99998"
    unfolding s1 by (simp add: loop_body_step sense_def after_setup_fields step_sentinel_pass)
  have o1: "serial s1 = [Str ''STEP:'', IntV (- 99998), EOL]"
    unfolding s1 by (simp add: loop_body_serial sense_def after_setup_fields step_sentinel_pass)
  have ks1: "current_knob_settings s1 = setup_presets ! 0" "motor_shaft_offset s1 = 0"
    unfolding s1 by (simp_all add: loop_body_frame sense_def after_setup_fields)
  have "\<not> is_bounded (current_knob_settings m)"
    "steps_per_revolution (current_knob_settings m) = 360"
    "motor_shaft_angle m = angle_of_step (- 99999)" "motor_shaft_offset m = 0"
    by (simp_all add: m_def doSetNumDetents_def atoi_examples Let_def doReportSettings_frame
        applyCurrentSettingsToMotor_def set_name_Custom_def sense_def ks1 setup_presets_def)
  then have n: "new_step_output (current_knob_settings m) (motor_shaft_angle m) (motor_shaft_offset m)
      = - 99999"
    using step_sentinel_pass [of "- 99999"]
    by (simp add: new_step_output_def Let_def setup_presets_def)
  have lm: "last_reported_step m = - 99999"
    by (simp add: m_def sentinel_after_mutation atoi_examples)
  have s2: "run (\<lambda>_. 0) [(angle_of_step (- 99998), []), (angle_of_step (- 99999), [Cmd_d ''5''])]
      (after_setup 0) = loop_body m"
    by (simp add: loop_def m_def s1_def)
  have c2: "current_step_output (loop_body m) = - 99999"
    by (simp only: loop_body_step n)
  have o2: "serial (loop_body m) = serial m"
    by (simp only: loop_body_serial n lm) simp
  show ?thesis
    unfolding s2 unfolding s1_def [symmetric] m_def [symmetric]
    using c1 o1 c2 o2 by blast
qed

subsection \<open>Rejected commands\<close>

text \<open>
  Claim C7, as stated, fails for malformed values: \<^verbatim>\<open>atoi\<close> reads text without a
  number as 0, and 0 passes every guard. After loading the second preset (12 detents),
  the command \<^verbatim>\<open>dabc\<close> sets the detent count to 0 and renames the configuration.
\<close>

theorem malformed_value_accepted_counterexample:
  "num_detents (current_knob_settings (doSwitchPresetMode ''1'' (after_setup 0))) = 12
  \<and> name (current_knob_settings (doSwitchPresetMode ''1'' (after_setup 0))) = ''Unbounded 12 Detents''
  \<and> num_detents (current_knob_settings (doSetNumDetents ''abc'' (doSwitchPresetMode ''1'' (after_setup 0)))) = 0
  \<and> name (current_knob_settings (doSetNumDetents ''abc'' (doSwitchPresetMode ''1'' (after_setup 0)))) = ''Custom''"
proof -
  have p: "current_knob_settings (doSwitchPresetMode ''1'' (after_setup 0)) = setup_presets ! 1"
    by (simp add: doSwitchPresetMode_def atoi_examples MAX_PRESET_MODES_def Let_def
        doReportSettings_frame applyCurrentSettingsToMotor_def after_setup_def)
  have d: "current_knob_settings (doSetNumDetents ''abc'' s)
      = (current_knob_settings s)\<lparr>num_detents := 0, name := ''Custom''\<rparr>" for s
    by (simp add: doSetNumDetents_def atoi_examples Let_def doReportSettings_frame
        applyCurrentSettingsToMotor_def set_name_Custom_def)
  show ?thesis
    by (simp only: d p) (simp add: setup_presets_def)
qed

text \<open>
  Claim C7, amended. Every rejected operation writes one line to the serial output and
  leaves everything else as it was: a preset index outside 0..5; a negative detent
  count, a negative gain, a negative number of steps; a bounded flag other than 0 or 1;
  a calibration while bounded. (Text that is not a number is not rejected.)
\<close>

theorem rejected_operations_leave_state:
  "(\<not> (0 \<le> atoi cmd \<and> atoi cmd < MAX_PRESET_MODES) \<longrightarrow>
      doSwitchPresetMode cmd s = s\<lparr>serial := serial s @ [Str ''Error: Invalid preset index.'', EOL]\<rparr>)
   \<and> (atoi cmd < 0 \<longrightarrow>
      doSetNumDetents cmd s = s\<lparr>serial := serial s @ [Str ''Error: Detents must be >= 0.'', EOL]\<rparr>)
   \<and> (atof cmd < 0 \<longrightarrow>
      doSetDetentStrength atof cmd s
        = s\<lparr>serial := serial s @ [Str ''Error: Strength P must be >= 0.'', EOL]\<rparr>)
   \<and> (atoi cmd < 0 \<longrightarrow>
      doSetStepsPerRev cmd s = s\<lparr>serial := serial s @ [Str ''Error: Steps/Rev must be >= 0.'', EOL]\<rparr>)
   \<and> (atoi cmd \<noteq> 0 \<and> atoi cmd \<noteq> 1 \<longrightarrow>
      doSetBounded cmd s
        = s\<lparr>serial := serial s @ [Str ''Error: Bounded value must be 0 or 1.'', EOL]\<rparr>)
   \<and> (is_bounded (current_knob_settings s) \<longrightarrow>
      doCalibrate s = s\<lparr>serial := serial s @
        [Str (''Info: Calibrate ('' @ [CHR 0x27] @ ''C'' @ [CHR 0x27] @ '') for unbounded modes.''), EOL]\<rparr>)"
  using doSwitchPresetMode_rejected [of cmd s] doSetNumDetents_rejected [of cmd s]
    doSetDetentStrength_rejected [of atof cmd s] doSetStepsPerRev_rejected [of cmd s]
    doSetBounded_rejected [of cmd s] doCalibrate_bounded [of s]
  by (simp add: MAX_PRESET_MODES_def)

text \<open>
  The commands \<^verbatim>\<open>M7\<close>, \<^verbatim>\<open>d-3\<close>, \<^verbatim>\<open>r-3\<close>, \<^verbatim>\<open>b2\<close> and a gain that reads as -1, in the
  state after \<^verbatim>\<open>setup()\<close>, and \<^verbatim>\<open>C\<close> after the bounded third preset was loaded.
\<close>

theorem rejected_operations_leave_state_witness:
  "doSwitchPresetMode ''7'' (after_setup 0)
     = (after_setup 0)\<lparr>serial := [Str ''Error: Invalid preset index.'', EOL]\<rparr>
   \<and> doSetNumDetents ''-3'' (after_setup 0)
     = (after_setup 0)\<lparr>serial := [Str ''Error: Detents must be >= 0.'', EOL]\<rparr>
   \<and> doSetDetentStrength (\<lambda>_. - 1) ''-1'' (after_setup 0)
     = (after_setup 0)\<lparr>serial := [Str ''Error: Strength P must be >= 0.'', EOL]\<rparr>
   \<and> doSetStepsPerRev ''-3'' (after_setup 0)
     = (after_setup 0)\<lparr>serial := [Str ''Error: Steps/Rev must be >= 0.'', EOL]\<rparr>
   \<and> doSetBounded ''2'' (after_setup 0)
     = (after_setup 0)\<lparr>serial := [Str ''Error: Bounded value must be 0 or 1.'', EOL]\<rparr>
   \<and> motor_shaft_offset (doCalibrate (doSwitchPresetMode ''2'' (after_setup 0))) = 0
   \<and> last_reported_step (doCalibrate (doSwitchPresetMode ''2'' (after_setup 0))) = - 99999"
proof -
  have b: "is_bounded (current_knob_settings (doSwitchPresetMode ''2'' (after_setup 0)))"
    by (simp add: doSwitchPresetMode_def atoi_examples MAX_PRESET_MODES_def Let_def
        doReportSettings_frame applyCurrentSettingsToMotor_def after_setup_def setup_presets_def)
  have o: "motor_shaft_offset (doSwitchPresetMode ''2'' (after_setup 0)) = 0"
    "last_reported_step (doSwitchPresetMode ''2'' (after_setup 0)) = - 99999"
    by (simp_all add: doSwitchPresetMode_def atoi_examples MAX_PRESET_MODES_def Let_def
        doReportSettings_frame applyCurrentSettingsToMotor_def after_setup_def)
  from rejected_operations_leave_state [of "''7''" "after_setup 0" "\<lambda>_. - 1"]
  have 1: "doSwitchPresetMode ''7'' (after_setup 0)
     = (after_setup 0)\<lparr>serial := [Str ''Error: Invalid preset index.'', EOL]\<rparr>"
    by (simp add: atoi_examples MAX_PRESET_MODES_def after_setup_fields)
  from rejected_operations_leave_state [of "''-3''" "after_setup 0" "\<lambda>_. - 1"]
  have 2: "doSetNumDetents ''-3'' (after_setup 0)
     = (after_setup 0)\<lparr>serial := [Str ''Error: Detents must be >= 0.'', EOL]\<rparr>"
    and 4: "doSetStepsPerRev ''-3'' (after_setup 0)
     = (after_setup 0)\<lparr>serial := [Str ''Error: Steps/Rev must be >= 0.'', EOL]\<rparr>"
    by (simp_all add: atoi_examples after_setup_fields)
  from rejected_operations_leave_state [of "''-1''" "after_setup 0" "\<lambda>_. - 1"]
  have 3: "doSetDetentStrength (\<lambda>_. - 1) ''-1'' (after_setup 0)
     = (after_setup 0)\<lparr>serial := [Str ''Error: Strength P must be >= 0.'', EOL]\<rparr>"
    by (simp add: after_setup_fields)
  from rejected_operations_leave_state [of "''2''" "after_setup 0" "\<lambda>_. - 1"]
  have 5: "doSetBounded ''2'' (after_setup 0)
     = (after_setup 0)\<lparr>serial := [Str ''Error: Bounded value must be 0 or 1.'', EOL]\<rparr>"
    by (simp add: atoi_examples after_setup_fields)
  from rejected_operations_leave_state [of "[]" "doSwitchPresetMode ''2'' (after_setup 0)" "\<lambda>_. - 1"] b
  have "doCalibrate (doSwitchPresetMode ''2'' (after_setup 0))
      = (doSwitchPresetMode ''2'' (after_setup 0))\<lparr>serial :=
          serial (doSwitchPresetMode ''2'' (after_setup 0)) @
          [Str (''Info: Calibrate ('' @ [CHR 0x27] @ ''C'' @ [CHR 0x27] @ '') for unbounded modes.''), EOL]\<rparr>"
    by blast
  then have 6: "motor_shaft_offset (doCalibrate (doSwitchPresetMode ''2'' (after_setup 0))) = 0"
    "last_reported_step (doCalibrate (doSwitchPresetMode ''2'' (after_setup 0))) = - 99999"
    using o by simp_all
  from 1 2 3 4 5 6 show ?thesis by blast
qed

subsection \<open>Calibration\<close>

text \<open>
  Claim C8. Calibrating while unbounded stores the current shaft angle as the offset and
  -99999 in \<^verbatim>\<open>last_reported_step\<close>; the pass that runs the command then computes step
  0 and reports it. Calibrating while bounded writes an information line and changes
  nothing else.
\<close>

theorem calibrate_sets_offset_and_reports:
  "(\<not> is_bounded (current_knob_settings s) \<longrightarrow>
      motor_shaft_offset (doCalibrate s) = motor_shaft_angle s
      \<and> last_reported_step (doCalibrate s) = - 99999
      \<and> current_step_output (loop atof [Cmd_C] s) = 0
      \<and> last_reported_step (loop atof [Cmd_C] s) = 0
      \<and> serial (loop atof [Cmd_C] s) = serial (doCalibrate s) @ [Str ''STEP:'', IntV 0, EOL])
   \<and> (is_bounded (current_knob_settings s) \<longrightarrow>
      doCalibrate s = s\<lparr>serial := serial s @
        [Str (''Info: Calibrate ('' @ [CHR 0x27] @ ''C'' @ [CHR 0x27] @ '') for unbounded modes.''), EOL]\<rparr>)"
proof (intro conjI impI)
  assume u: "\<not> is_bounded (current_knob_settings s)"
  have n: "new_step_output (current_knob_settings (doCalibrate s)) (motor_shaft_angle (doCalibrate s))
      (motor_shaft_offset (doCalibrate s)) = 0"
    using u step_at_offset [of "current_knob_settings s" "motor_shaft_angle s"]
    by (simp add: doCalibrate_unbounded)
  show "motor_shaft_offset (doCalibrate s) = motor_shaft_angle s"
    using u by (simp add: doCalibrate_unbounded)
  show l: "last_reported_step (doCalibrate s) = - 99999"
    using u by (simp add: doCalibrate_unbounded)
  show "current_step_output (loop atof [Cmd_C] s) = 0"
    by (simp add: loop_def loop_body_step n)
  show "last_reported_step (loop atof [Cmd_C] s) = 0"
    by (simp add: loop_def loop_body_step n)
  show "serial (loop atof [Cmd_C] s) = serial (doCalibrate s) @ [Str ''STEP:'', IntV 0, EOL]"
    by (simp add: loop_def loop_body_serial n l)
next
  assume "is_bounded (current_knob_settings s)"
  then show "doCalibrate s = s\<lparr>serial := serial s @
        [Str (''Info: Calibrate ('' @ [CHR 0x27] @ ''C'' @ [CHR 0x27] @ '') for unbounded modes.''), EOL]\<rparr>"
    by (rule doCalibrate_bounded)
qed

text \<open>
  The state after \<^verbatim>\<open>setup()\<close> with the shaft at 3 rad (first preset, unbounded), and the
  same state after the bounded third preset was loaded.
\<close>

theorem calibrate_sets_offset_and_reports_witness:
  "motor_shaft_offset (doCalibrate (after_setup 3)) = 3
   \<and> serial (loop (\<lambda>_. 0) [Cmd_C] (after_setup 3))
       = [Str ''Unbounded calibrated. Offset: '', FloatV 3 4, EOL, Str ''STEP:'', IntV 0, EOL]
   \<and> motor_shaft_offset (doCalibrate (doSwitchPresetMode ''2'' (after_setup 3))) = 0"
proof -
  have u: "\<not> is_bounded (current_knob_settings (after_setup 3))"
    by (simp add: after_setup_fields setup_presets_def)
  have b: "is_bounded (current_knob_settings (doSwitchPresetMode ''2'' (after_setup 3)))"
    by (simp add: doSwitchPresetMode_def atoi_examples MAX_PRESET_MODES_def Let_def
        doReportSettings_frame applyCurrentSettingsToMotor_def after_setup_def setup_presets_def)
  have o: "motor_shaft_offset (doSwitchPresetMode ''2'' (after_setup 3)) = 0"
    by (simp add: doSwitchPresetMode_def atoi_examples MAX_PRESET_MODES_def Let_def
        doReportSettings_frame applyCurrentSettingsToMotor_def after_setup_def)
  have a: "motor_shaft_angle (after_setup 3) = 3"
    by (simp add: after_setup_def applyCurrentSettingsToMotor_def)
  have d: "serial (doCalibrate (after_setup 3))
      = [Str ''Unbounded calibrated. Offset: '', FloatV 3 4, EOL]"
    using u by (simp add: doCalibrate_unbounded after_setup_fields a)
  from calibrate_sets_offset_and_reports [of "after_setup 3" "\<lambda>_. 0"] u
  have 1: "motor_shaft_offset (doCalibrate (after_setup 3)) = 3"
    and 2: "serial (loop (\<lambda>_. 0) [Cmd_C] (after_setup 3))
       = [Str ''Unbounded calibrated. Offset: '', FloatV 3 4, EOL, Str ''STEP:'', IntV 0, EOL]"
    by (simp_all add: a d)
  from calibrate_sets_offset_and_reports [of "doSwitchPresetMode ''2'' (after_setup 3)" "\<lambda>_. 0"] b
  have "doCalibrate (doSwitchPresetMode ''2'' (after_setup 3))
      = (doSwitchPresetMode ''2'' (after_setup 3))\<lparr>serial :=
          serial (doSwitchPresetMode ''2'' (after_setup 3)) @
          [Str (''Info: Calibrate ('' @ [CHR 0x27] @ ''C'' @ [CHR 0x27] @ '') for unbounded modes.''), EOL]\<rparr>"
    by blast
  then have 3: "motor_shaft_offset (doCalibrate (doSwitchPresetMode ''2'' (after_setup 3))) = 0"
    using o by simp
  from 1 2 3 show ?thesis by blast
qed

subsection \<open>Setting the number of steps to 0\<close>

lemma doSetStepsPerRev_zero:
  "atoi cmd = 0 \<Longrightarrow>
   current_knob_settings (doSetStepsPerRev cmd s)
     = (current_knob_settings s)\<lparr>steps_per_revolution := 0, name := ''Custom''\<rparr>"
  by (simp add: doSetStepsPerRev_def Let_def doReportSettings_frame
      applyCurrentSettingsToMotor_def set_name_Custom_def)

text \<open>
  Claim C9, as stated, fails on the second listing, whose \<^verbatim>\<open>doSetStepsPerRev\<close> accepts
  only \<^verbatim>\<open>val > 0\<close>: the command \<^verbatim>\<open>r0\<close> leaves 360 steps per turn and the name of the
  preset.
\<close>

theorem steps_zero_rejected_v2_counterexample:
  "steps_per_revolution (current_knob_settings (doSetStepsPerRev_v2 ''0'' (after_setup 0))) = 360
   \<and> name (current_knob_settings (doSetStepsPerRev_v2 ''0'' (after_setup 0))) = ''Unbounded Smooth''"
  by (simp add: doSetStepsPerRev_v2_rejected atoi_examples after_setup_fields setup_presets_def)

text \<open>
  Claim C9, amended. In the first listing (guard \<^verbatim>\<open>val >= 0\<close>) setting
  \<open>steps_per_revolution\<close> to 0 succeeds: the field becomes 0, the configuration is named
  "Custom", its other fields stay, and after any number of later passes without a
  command, at any shaft angles, the step output is 0. In the second listing (guard
  \<^verbatim>\<open>val > 0\<close>) the value 0 is rejected: one line is written and nothing else changes.
\<close>

theorem steps_zero_accepted_v1_rejected_v2:
  "atoi cmd = 0 \<longrightarrow>
     current_knob_settings (doSetStepsPerRev cmd s)
       = (current_knob_settings s)\<lparr>steps_per_revolution := 0, name := ''Custom''\<rparr>
     \<and> (\<forall>passes. passes \<noteq> [] \<and> (\<forall>p\<in>set passes. snd p = []) \<longrightarrow>
           current_step_output (run atof passes (doSetStepsPerRev cmd s)) = 0)
     \<and> doSetStepsPerRev_v2 cmd s
       = s\<lparr>serial := serial s @ [Str ''Invalid steps/rev value (must be > 0).'', EOL]\<rparr>"
proof (intro impI conjI allI)
  assume z: "atoi cmd = 0"
  show ks: "current_knob_settings (doSetStepsPerRev cmd s)
       = (current_knob_settings s)\<lparr>steps_per_revolution := 0, name := ''Custom''\<rparr>"
    using z by (rule doSetStepsPerRev_zero)
  show "doSetStepsPerRev_v2 cmd s
       = s\<lparr>serial := serial s @ [Str ''Invalid steps/rev value (must be > 0).'', EOL]\<rparr>"
    using z by (simp add: doSetStepsPerRev_v2_rejected)
  fix passes :: "(real \<times> command list) list"
  assume p: "passes \<noteq> [] \<and> (\<forall>p\<in>set passes. snd p = [])"
  have "steps_per_revolution (current_knob_settings (doSetStepsPerRev cmd s)) \<le> 0"
    by (simp add: ks)
  then show "current_step_output (run atof passes (doSetStepsPerRev cmd s)) = 0"
    using p by (intro no_steps_no_output) simp_all
qed

text \<open>
  The command \<^verbatim>\<open>r0\<close> in the state after \<^verbatim>\<open>setup()\<close>, followed by passes with the shaft
  at 1 rad and at 200 rad.
\<close>

theorem steps_zero_accepted_v1_rejected_v2_witness:
  "atoi ''0'' = 0
   \<and> steps_per_revolution (current_knob_settings (doSetStepsPerRev ''0'' (after_setup 0))) = 0
   \<and> name (current_knob_settings (doSetStepsPerRev ''0'' (after_setup 0))) = ''Custom''
   \<and> current_step_output
        (run (\<lambda>_. 0) [(1, []), (200, [])] (doSetStepsPerRev ''0'' (after_setup 0))) = 0
   \<and> doSetStepsPerRev_v2 ''0'' (after_setup 0)
       = (after_setup 0)\<lparr>serial := [Str ''Invalid steps/rev value (must be > 0).'', EOL]\<rparr>"
proof -
  have z: "atoi ''0'' = 0" by (simp add: atoi_examples)
  note inst = steps_zero_accepted_v1_rejected_v2 [of "''0''" "after_setup 0" "\<lambda>_. 0", rule_format, OF z]
  have ks: "current_knob_settings (doSetStepsPerRev ''0'' (after_setup 0))
      = (current_knob_settings (after_setup 0))\<lparr>steps_per_revolution := 0, name := ''Custom''\<rparr>"
    using inst by blast
  have r: "current_step_output
        (run (\<lambda>_. 0) [(1, []), (200, [])] (doSetStepsPerRev ''0'' (after_setup 0))) = 0"
  proof -
    have "[(1::real, []::command list), (200, [])] \<noteq> []
        \<and> (\<forall>p\<in>set [(1::real, []::command list), (200, [])]. snd p = [])"
      by simp
    with inst show ?thesis by blast
  qed
  have v2: "doSetStepsPerRev_v2 ''0'' (after_setup 0)
       = (after_setup 0)\<lparr>serial := [Str ''Invalid steps/rev value (must be > 0).'', EOL]\<rparr>"
    using inst by (simp add: after_setup_fields)
  from z ks r v2 show ?thesis by simp
qed

subsection \<open>What a pass without a command leaves alone\<close>

text \<open>
  Claim C10. A pass of \<^verbatim>\<open>loop()\<close> that finds no command leaves the active
  configuration (its name included), the calibration offset, the preset table and the
  preset index as they were, in every state and at every shaft angle. Of the globals
  of the sketch it writes only \<^verbatim>\<open>current_step_output\<close> and \<^verbatim>\<open>last_reported_step\<close>; beyond
  them it sets the gain and the target of the motor and may add a line to the serial
  output.
\<close>

theorem tick_frame:
  "current_knob_settings (loop atof [] s) = current_knob_settings s
   \<and> motor_shaft_offset (loop atof [] s) = motor_shaft_offset s
   \<and> preset_modes (loop atof [] s) = preset_modes s
   \<and> current_preset_mode_idx (loop atof [] s) = current_preset_mode_idx s
   \<and> target_angle_motor (loop atof [] s) = target_angle_motor s
   \<and> (\<exists>gain target step last out.
         loop atof [] s
           = s\<lparr>motor_P_angle_P := gain, motor_move_target := target,
               current_step_output := step, last_reported_step := last, serial := out\<rparr>)"
proof -
  have "\<exists>gain target step last out.
         loop_body s
           = s\<lparr>motor_P_angle_P := gain, motor_move_target := target,
               current_step_output := step, last_reported_step := last, serial := out\<rparr>"
  proof (cases "new_step_output (current_knob_settings s) (motor_shaft_angle s) (motor_shaft_offset s)
      = last_reported_step s")
    case True
    then have "loop_body s = s\<lparr>motor_P_angle_P := detent_strength_P (current_knob_settings s),
        motor_move_target := calculated_foc_target_angle (current_knob_settings s)
            (motor_shaft_angle s) (motor_shaft_offset s),
        current_step_output := last_reported_step s,
        last_reported_step := last_reported_step s, serial := serial s\<rparr>"
      by (simp add: loop_body_def Let_def)
    then show ?thesis by blast
  next
    case False
    then have "loop_body s = s\<lparr>motor_P_angle_P := detent_strength_P (current_knob_settings s),
        motor_move_target := calculated_foc_target_angle (current_knob_settings s)
            (motor_shaft_angle s) (motor_shaft_offset s),
        current_step_output := new_step_output (current_knob_settings s) (motor_shaft_angle s)
            (motor_shaft_offset s),
        last_reported_step := new_step_output (current_knob_settings s) (motor_shaft_angle s)
            (motor_shaft_offset s),
        serial := serial s @ [Str ''STEP:'',
            IntV (new_step_output (current_knob_settings s) (motor_shaft_angle s)
              (motor_shaft_offset s)), EOL]\<rparr>"
      by (simp add: loop_body_def Let_def)
    then show ?thesis by blast
  qed
  then show ?thesis
    by (simp add: loop_def loop_body_frame)
qed

section \<open>The values of the two computations in binary32\<close>

subsection \<open>Rounding\<close>

lemma round_even_near: "\<bar>y - real_of_int m\<bar> < 1/2 \<Longrightarrow> round_even y = m"
proof -
  assume a: "\<bar>y - real_of_int m\<bar> < 1/2"
  consider "y \<ge> real_of_int m" | "y < real_of_int m" by linarith
  then show ?thesis
  proof cases
    case 1
    then have "\<lfloor>y\<rfloor> = m" using a by linarith
    then show ?thesis using a 1 by (simp add: round_even_def Let_def)
  next
    case 2
    then have f: "\<lfloor>y\<rfloor> = m - 1" using a by linarith
    then show ?thesis using a 2 by (simp add: round_even_def Let_def)
  qed
qed

lemma round_even_tie: "\<bar>y - real_of_int m\<bar> = 1/2 \<Longrightarrow> even m \<Longrightarrow> round_even y = m"
proof -
  assume a: "\<bar>y - real_of_int m\<bar> = 1/2" and e: "even m"
  consider "y = real_of_int m + 1/2" | "y = real_of_int m - 1/2" using a by linarith
  then show ?thesis
  proof cases
    case 1
    then have "\<lfloor>y\<rfloor> = m" by linarith
    then show ?thesis using 1 e by (simp add: round_even_def Let_def)
  next
    case 2
    then have "\<lfloor>y\<rfloor> = m - 1" by linarith
    then show ?thesis using 2 e by (simp add: round_even_def Let_def)
  qed
qed

lemma round_even_error: "\<bar>real_of_int (round_even y) - y\<bar> \<le> 1/2"
  unfolding round_even_def Let_def by (auto; linarith)

lemma round_even_of_int: "round_even (real_of_int m) = m"
  by (rule round_even_near) simp

lemma round_even_nonneg: "0 \<le> y \<Longrightarrow> 0 \<le> round_even y"
  unfolding round_even_def Let_def by (auto; linarith)

lemma round_even_nonpos: "y \<le> 0 \<Longrightarrow> round_even y \<le> 0"
proof -
  assume y: "y \<le> 0"
  show ?thesis
  proof (cases "y = 0")
    case True
    then show ?thesis using round_even_of_int [of 0] by simp
  next
    case False
    then have "\<lfloor>y\<rfloor> \<le> - 1" using y by linarith
    then show ?thesis unfolding round_even_def Let_def by (auto; linarith)
  qed
qed

lemma exponent_from_range: "- 126 \<le> exponent_from n x \<and> exponent_from n x \<le> int n - 126"
  by (induction n) auto

lemma exponent_from_below:
  "exponent_from n x = - 126 \<or> 2 powi (exponent_from n x) \<le> \<bar>x\<bar>"
  by (induction n) auto

lemma exponent_from_small: "\<bar>x\<bar> < 2 powi (- 125) \<Longrightarrow> exponent_from n x = - 126"
proof (induction n)
  case 0
  then show ?case by simp
next
  case (Suc n)
  have "(2::real) powi (- 125) \<le> 2 powi (int n - 125)"
    by (rule power_int_increasing) simp_all
  then have "\<not> 2 powi (int n - 125) \<le> \<bar>x\<bar>" using Suc.prems by linarith
  then show ?case using Suc by simp
qed

lemma exponent_from_eq:
  "2 powi e \<le> \<bar>x\<bar> \<Longrightarrow> \<bar>x\<bar> < 2 powi (e + 1) \<Longrightarrow> - 125 \<le> e \<Longrightarrow> e \<le> int n - 126
   \<Longrightarrow> exponent_from n x = e"
proof (induction n)
  case 0
  then show ?case by simp
next
  case (Suc n)
  show ?case
  proof (cases "e = int n - 125")
    case True
    then show ?thesis using Suc.prems by simp
  next
    case False
    then have le: "e + 1 \<le> int n - 125" using Suc.prems by simp
    have "(2::real) powi (e + 1) \<le> 2 powi (int n - 125)"
      using le by (rule power_int_increasing) simp
    then have "\<not> 2 powi (int n - 125) \<le> \<bar>x\<bar>" using Suc.prems by linarith
    moreover have "exponent_from n x = e" using Suc False by simp
    ultimately show ?thesis by simp
  qed
qed

lemma binary32_normal:
  assumes "2 powi e \<le> \<bar>x\<bar>" "\<bar>x\<bar> < 2 powi (e + 1)" "- 125 \<le> e" "e \<le> 127"
  shows "binary32 x = real_of_int (round_even (x / 2 powi (e - 23))) * 2 powi (e - 23)"
  using exponent_from_eq [OF assms(1-3), of 253] assms(4)
  by (simp add: binary32_def float_exponent_def Let_def)

lemma binary32_small:
  assumes "\<bar>x\<bar> < 2 powi (- 125)"
  shows "binary32 x = real_of_int (round_even (x / 2 powi (- 149))) * 2 powi (- 149)"
  using exponent_from_small [OF assms, of 253]
  by (simp add: binary32_def float_exponent_def Let_def)

lemma binary32_zero: "binary32 0 = 0"
  using binary32_small [of 0] round_even_of_int [of 0] by simp

lemma binary32_nonneg: "0 \<le> x \<Longrightarrow> 0 \<le> binary32 x"
  by (simp add: binary32_def Let_def round_even_nonneg)

lemma binary32_nonpos: "x \<le> 0 \<Longrightarrow> binary32 x \<le> 0"
proof -
  assume "x \<le> 0"
  then have "x / 2 powi (float_exponent x - 23) \<le> 0"
    by (simp add: divide_nonpos_pos)
  then have "round_even (x / 2 powi (float_exponent x - 23)) \<le> 0"
    by (rule round_even_nonpos)
  then show ?thesis
    by (simp add: binary32_def Let_def mult_nonpos_nonneg)
qed

lemma binary32_error: "\<bar>binary32 x - x\<bar> \<le> \<bar>x\<bar> / 2 ^ 24 + 1 / 2 ^ 150"
proof -
  define e where "e = float_exponent x"
  define u :: real where "u = 2 powi (e - 23)"
  have u: "0 < u" by (simp add: u_def)
  have "binary32 x - x = (real_of_int (round_even (x / u)) - x / u) * u"
    using u by (simp add: binary32_def Let_def e_def u_def algebra_simps)
  then have "\<bar>binary32 x - x\<bar> = \<bar>real_of_int (round_even (x / u)) - x / u\<bar> * u"
    using u by (simp add: abs_mult)
  also have "\<dots> \<le> 1/2 * u"
    using round_even_error [of "x / u"] u by (intro mult_right_mono) auto
  finally have b: "\<bar>binary32 x - x\<bar> \<le> u / 2" by simp
  have split: "u / 2 = 2 powi e / 2 ^ 24"
    by (simp add: u_def power_int_diff)
  consider "e = - 126" | "2 powi e \<le> \<bar>x\<bar>"
    using exponent_from_below [of 253 x] by (auto simp: e_def float_exponent_def)
  then show ?thesis
  proof cases
    case 1
    then have "u / 2 = 1 / 2 ^ 150" by (simp add: u_def)
    with b have "\<bar>binary32 x - x\<bar> \<le> 1 / 2 ^ 150" by (simp only:)
    moreover have "0 \<le> \<bar>x\<bar> / 2 ^ 24" by simp
    ultimately show ?thesis by linarith
  next
    case 2
    then have "u / 2 \<le> \<bar>x\<bar> / 2 ^ 24" by (simp add: split divide_right_mono)
    moreover have "(0::real) \<le> 1 / 2 ^ 150" by simp
    ultimately show ?thesis using b by linarith
  qed
qed

lemma binary32_eqI:
  assumes "2 powi e \<le> \<bar>x\<bar>" "\<bar>x\<bar> < 2 powi (e + 1)" "- 125 \<le> e" "e \<le> 127"
    and "\<bar>x / 2 powi (e - 23) - real_of_int m\<bar> < 1/2
         \<or> (\<bar>x / 2 powi (e - 23) - real_of_int m\<bar> = 1/2 \<and> even m)"
    and "r = real_of_int m * 2 powi (e - 23)"
  shows "binary32 x = r"
proof -
  have "round_even (x / 2 powi (e - 23)) = m"
    using assms(5) round_even_near round_even_tie by blast
  then show ?thesis
    using binary32_normal [OF assms(1-4)] assms(6) by simp
qed


lemma binary32_small_eqI:
  assumes "\<bar>x\<bar> < 2 powi (- 125)"
    and "\<bar>x / 2 powi (- 149) - real_of_int m\<bar> < 1/2
         \<or> (\<bar>x / 2 powi (- 149) - real_of_int m\<bar> = 1/2 \<and> even m)"
    and "r = real_of_int m * 2 powi (- 149)"
  shows "binary32 x = r"
proof -
  have "round_even (x / 2 powi (- 149)) = m"
    using assms(2) round_even_near round_even_tie by blast
  then show ?thesis
    using binary32_small [OF assms(1)] assms(3) by simp
qed

lemma binary32_upper: "0 \<le> x \<Longrightarrow> x \<le> c \<Longrightarrow> binary32 x \<le> c + c / 2 ^ 24 + 1 / 2 ^ 150"
proof -
  assume x: "0 \<le> x" "x \<le> c"
  have "binary32 x \<le> x + x / 2 ^ 24 + 1 / 2 ^ 150"
    using binary32_error [of x] x(1) by (simp add: abs_le_iff)
  moreover have "x / 2 ^ 24 \<le> c / 2 ^ 24" using x(2) by (simp add: divide_right_mono)
  ultimately show ?thesis using x(2) by linarith
qed

lemma binary32_lower: "0 \<le> c \<Longrightarrow> c \<le> x \<Longrightarrow> c - c / 2 ^ 24 - 1 / 2 ^ 150 \<le> binary32 x"
proof -
  assume x: "0 \<le> c" "c \<le> x"
  have "x - x / 2 ^ 24 - 1 / 2 ^ 150 \<le> binary32 x"
    using binary32_error [of x] x by (simp add: abs_le_iff)
  moreover have "c - c / 2 ^ 24 \<le> x - x / 2 ^ 24"
  proof -
    have "c - c / 2 ^ 24 = c * (1 - 1 / 2 ^ 24)" "x - x / 2 ^ 24 = x * (1 - 1 / 2 ^ 24)"
      by (simp_all add: algebra_simps)
    then show ?thesis using x(2) by (simp add: mult_right_mono)
  qed
  ultimately show ?thesis by linarith
qed

lemma trunc_long_nonneg: "0 \<le> x \<Longrightarrow> trunc_long x = \<lfloor>x\<rfloor>"
  by (simp add: trunc_long_def)

lemma trunc_long_nonpos: "x \<le> 0 \<Longrightarrow> trunc_long x = \<lceil>x\<rceil>"
  by (cases "x = 0") (simp_all add: trunc_long_def)

lemma round_macro_f32_eq:
  "round_macro_f32 q =
     (let r = (if q \<ge> 0 then \<lfloor>fadd q (1/2)\<rfloor> else \<lceil>fsub q (1/2)\<rceil>)
      in if - 2147483648 \<le> r \<and> r < 2147483648 then Some r else None)"
proof (cases "q \<ge> 0")
  case True
  then have "0 \<le> fadd q (1/2)" by (simp add: fadd_def binary32_nonneg)
  then show ?thesis using True
    by (auto simp add: round_macro_f32_def long_of_float_def Let_def trunc_long_nonneg)
next
  case False
  then have "fsub q (1/2) \<le> 0" by (simp add: fsub_def binary32_nonpos)
  then show ?thesis using False
    by (auto simp add: round_macro_f32_def long_of_float_def Let_def trunc_long_nonpos)
qed

lemma round_macro_f32_range:
  "round_macro_f32 q = Some n \<Longrightarrow> - 2147483648 \<le> n \<and> n < 2147483648"
  by (auto simp add: round_macro_f32_eq Let_def split: if_splits)

lemma target_f32_unbounded:
  assumes "\<not> is_bounded ks" "0 < num_detents ks"
  shows "calculated_foc_target_angle_f32 ks a off =
     (case round_macro_f32 (fdiv (fsub a off)
             (fdiv (binary32 TWO_PI_macro) (float_of_long (num_detents ks)))) of
        None \<Rightarrow> None
      | Some r \<Rightarrow> Some (fadd (fmul (float_of_long r)
             (fdiv (binary32 TWO_PI_macro) (float_of_long (num_detents ks)))) off))"
  using assms by (simp add: calculated_foc_target_angle_f32_def Let_def)

lemma three_roundings:
  fixes e1 e2 e3 A B P Q Ob S :: real
  assumes "e1 \<le> A / 2 ^ 24 + S / 2 ^ 150" "e2 \<le> B / 2 ^ 24 + 1 / 2 ^ 150"
    "e3 \<le> Q / 2 ^ 24 + 1 / 2 ^ 150"
    "B \<le> A + e1" "P \<le> B + e2" "Q \<le> P + Ob" "0 \<le> S" "0 \<le> A" "0 \<le> Ob"
  shows "e3 + e2 + e1 \<le> (A + Ob) / 2 ^ 22 + (1 + S) / 2 ^ 148"
proof -
  have B: "B \<le> 17 / 16 * A + S / 2 ^ 150"
    using assms(1,4,7,8) by (simp add: field_simps)
  have e2: "e2 \<le> 17 / 16 * A / 2 ^ 24 + S / 2 ^ 150 + 1 / 2 ^ 150"
    using assms(2,7) B by (simp add: field_simps)
  have P: "P \<le> 9 / 8 * A + 2 * S / 2 ^ 150 + 1 / 2 ^ 150"
    using assms(5,8) B e2 by (simp add: field_simps)
  have Q: "Q \<le> 9 / 8 * A + Ob + 2 * S / 2 ^ 150 + 1 / 2 ^ 150"
    using P assms(6) by simp
  have e3: "e3 \<le> (9 / 8 * A + Ob) / 2 ^ 24 + S / 2 ^ 150 + 2 / 2 ^ 150"
    using assms(3,7) Q by (simp add: field_simps)
  show ?thesis
    using assms(1,7,8,9) e2 e3 by (simp add: field_simps)
qed

lemma lattice_tolerance:
  fixes n :: int and sp off :: real
  shows "\<bar>fadd (fmul (float_of_long n) sp) off - (off + real_of_int n * sp)\<bar>
       \<le> (\<bar>real_of_int n * sp\<bar> + \<bar>off\<bar>) / 2 ^ 22 + (1 + \<bar>sp\<bar>) / 2 ^ 148"
proof -
  define n' where "n' = float_of_long n"
  define p where "p = fmul n' sp"
  define t where "t = fadd p off"
  define A where "A = \<bar>real_of_int n * sp\<bar>"
  define S where "S = \<bar>sp\<bar>"
  define B where "B = \<bar>n' * sp\<bar>"
  define P where "P = \<bar>p\<bar>"
  define Q where "Q = \<bar>p + off\<bar>"
  define Ob where "Ob = \<bar>off\<bar>"
  define e1 where "e1 = \<bar>n' * sp - real_of_int n * sp\<bar>"
  define e2 where "e2 = \<bar>p - n' * sp\<bar>"
  define e3 where "e3 = \<bar>t - (p + off)\<bar>"
  have S: "0 \<le> S" and A: "0 \<le> A" and Ob: "0 \<le> Ob"
    by (simp_all add: S_def A_def Ob_def)
  have "\<bar>n' - real_of_int n\<bar> \<le> \<bar>real_of_int n\<bar> / 2 ^ 24 + 1 / 2 ^ 150"
    unfolding n'_def float_of_long_def by (rule binary32_error)
  then have "\<bar>n' - real_of_int n\<bar> * S \<le> (\<bar>real_of_int n\<bar> / 2 ^ 24 + 1 / 2 ^ 150) * S"
    using S by (rule mult_right_mono)
  moreover have "\<bar>n' - real_of_int n\<bar> * S = e1"
    by (simp add: e1_def S_def flip: abs_mult left_diff_distrib)
  moreover have "(\<bar>real_of_int n\<bar> / 2 ^ 24 + 1 / 2 ^ 150) * S = A / 2 ^ 24 + S / 2 ^ 150"
    by (simp add: A_def S_def abs_mult algebra_simps)
  ultimately have h1: "e1 \<le> A / 2 ^ 24 + S / 2 ^ 150" by simp
  have h2: "e2 \<le> B / 2 ^ 24 + 1 / 2 ^ 150"
    unfolding e2_def B_def p_def fmul_def by (rule binary32_error)
  have h3: "e3 \<le> Q / 2 ^ 24 + 1 / 2 ^ 150"
    unfolding e3_def Q_def t_def fadd_def by (rule binary32_error)
  have b1: "B \<le> A + e1" unfolding B_def A_def e1_def by linarith
  have b2: "P \<le> B + e2" unfolding P_def B_def e2_def by linarith
  have b3: "Q \<le> P + Ob" unfolding Q_def P_def Ob_def by linarith
  have tri: "\<bar>t - (off + real_of_int n * sp)\<bar> \<le> e3 + e2 + e1"
    unfolding e1_def e2_def e3_def by linarith
  have "e3 + e2 + e1 \<le> (A + Ob) / 2 ^ 22 + (1 + S) / 2 ^ 148"
    using h1 h2 h3 b1 b2 b3 S A Ob by (rule three_roundings)
  with tri have "\<bar>t - (off + real_of_int n * sp)\<bar> \<le> (A + Ob) / 2 ^ 22 + (1 + S) / 2 ^ 148"
    by linarith
  then show ?thesis
    by (simp add: t_def p_def n'_def A_def S_def Ob_def)
qed

lemma eps_value: "binary32 0.001 = 8589935 / 8589934592"
  by (rule binary32_eqI [where e = "- 10" and m = 8589935]) simp_all

lemma half_value: "binary32 (1 / 2) = 1 / 2"
  by (rule binary32_eqI [where e = "- 1" and m = 8388608]) simp_all

lemma span_positive:
  assumes "binary32 0.001 < fsub mx mn"
  shows "mn < mx" and "1 / 1000 < fsub mx mn"
proof -
  show "1 / 1000 < fsub mx mn" using assms unfolding eps_value by simp
  then have "\<not> binary32 (mx - mn) \<le> 0" by (simp add: fsub_def)
  then have "\<not> mx - mn \<le> 0" using binary32_nonpos by blast
  then show "mn < mx" by simp
qed

lemma constrain_max_min: "lo \<le> hi \<Longrightarrow> constrain x lo hi = max lo (min hi x)"
  by (auto simp add: constrain_def max_def min_def)

lemma bounded_quotient_bound:
  fixes span ins :: real and N :: int
  assumes N: "0 < N" "N \<le> 32767" and span: "1 / 1000 < span"
    and ins: "0 \<le> ins" "ins \<le> span"
  shows "0 \<le> fdiv ins (fdiv span (float_of_long N))"
    and "0 \<le> fadd (fdiv ins (fdiv span (float_of_long N))) (1 / 2)"
    and "fadd (fdiv ins (fdiv span (float_of_long N))) (1 / 2) < 32771"
proof -
  define s where "s = float_of_long N"
  define x0 where "x0 = span / s"
  define w where "w = fdiv span s"
  define q where "q = fdiv ins w"
  have "1 - 1 / 2 ^ 24 - 1 / 2 ^ 150 \<le> s"
    unfolding s_def float_of_long_def
    using binary32_lower [of 1 "real_of_int N"] N(1) by simp
  then have s_lo: "1 / 2 \<le> s" by simp
  have "s \<le> 32767 + 32767 / 2 ^ 24 + 1 / 2 ^ 150"
    unfolding s_def float_of_long_def using N
    by (intro binary32_upper) simp_all
  then have s_hi: "s \<le> 32768" by simp
  have s_pos: "0 < s" using s_lo by simp
  have span_eq: "span = x0 * s" using s_pos by (simp add: x0_def)
  have x0_pos: "0 < x0" using span s_pos by (simp add: x0_def)
  have "1 / 1000 < x0 * 32768"
  proof -
    have "x0 * s \<le> x0 * 32768" using s_hi x0_pos by (intro mult_left_mono) simp_all
    then show ?thesis using span span_eq by linarith
  qed
  then have x0_lo: "1 / 32768000 < x0" by simp
  have "\<bar>w - x0\<bar> \<le> \<bar>x0\<bar> / 2 ^ 24 + 1 / 2 ^ 150"
    unfolding w_def fdiv_def x0_def by (rule binary32_error)
  then have "x0 - (x0 / 2 ^ 24 + 1 / 2 ^ 150) \<le> w"
    using x0_pos by (simp add: abs_le_iff)
  moreover have "(1::real) / 2 ^ 150 \<le> (1 / 32768000) / 2 ^ 24" by simp
  moreover have "(1 / 32768000) / 2 ^ 24 \<le> x0 / 2 ^ 24"
    using x0_lo by (intro divide_right_mono) simp_all
  moreover have "x0 * (1 - 1 / 2 ^ 23) = x0 - (x0 / 2 ^ 24 + x0 / 2 ^ 24)"
    by (simp add: algebra_simps)
  ultimately have w_lb: "x0 * (1 - 1 / 2 ^ 23) \<le> w" by linarith
  have w_pos: "0 < w"
  proof -
    have "0 < x0 * (1 - 1 / 2 ^ 23)" using x0_pos by simp
    then show ?thesis using w_lb by linarith
  qed
  have "ins \<le> w * 32769"
  proof -
    have "x0 * s \<le> x0 * 32768" using s_hi x0_pos by (intro mult_left_mono) simp_all
    then have "ins \<le> x0 * 32768" using ins(2) span_eq by linarith
    moreover have "x0 * 32768 \<le> x0 * (1 - 1 / 2 ^ 23) * 32769" using x0_pos by simp
    moreover have "x0 * (1 - 1 / 2 ^ 23) * 32769 \<le> w * 32769" using w_lb by simp
    ultimately show ?thesis by linarith
  qed
  then have x1_hi: "ins / w \<le> 32769" using w_pos by (simp add: pos_divide_le_eq)
  have x1_lo: "0 \<le> ins / w" using ins(1) w_pos by simp
  have q_lo: "0 \<le> q" unfolding q_def fdiv_def using x1_lo by (rule binary32_nonneg)
  have "q \<le> 32769 + 32769 / 2 ^ 24 + 1 / 2 ^ 150"
    unfolding q_def fdiv_def using x1_lo x1_hi by (rule binary32_upper)
  then have q_hi: "q \<le> 32770" by simp
  have z_lo: "0 \<le> fadd q (1 / 2)"
    unfolding fadd_def using q_lo by (intro binary32_nonneg) simp
  have "fadd q (1 / 2) \<le> 65541 / 2 + (65541 / 2) / 2 ^ 24 + 1 / 2 ^ 150"
    unfolding fadd_def using q_lo q_hi by (intro binary32_upper) simp_all
  then have z_hi: "fadd q (1 / 2) < 32771" by simp
  show "0 \<le> fdiv ins (fdiv span (float_of_long N))"
    and "0 \<le> fadd (fdiv ins (fdiv span (float_of_long N))) (1 / 2)"
    and "fadd (fdiv ins (fdiv span (float_of_long N))) (1 / 2) < 32771"
    using q_lo z_lo z_hi by (simp_all add: q_def w_def s_def)
qed

lemma step_f32_bounded:
  assumes "0 < steps_per_revolution ks" "steps_per_revolution ks \<le> 32767" "is_bounded ks"
    and "binary32 0.001 < fsub (max_angle_rad ks) (min_angle_rad ks)"
  shows "new_step_output_f32 ks a off =
     Some (max 0 (min (steps_per_revolution ks)
       \<lfloor>fadd (fdiv (max 0 (min (fsub (max_angle_rad ks) (min_angle_rad ks))
                                  (fsub a (min_angle_rad ks))))
                     (fdiv (fsub (max_angle_rad ks) (min_angle_rad ks))
                           (float_of_long (steps_per_revolution ks)))) (1 / 2)\<rfloor>))"
proof -
  define span where "span = fsub (max_angle_rad ks) (min_angle_rad ks)"
  define ins where "ins = max 0 (min span (fsub a (min_angle_rad ks)))"
  define q where "q = fdiv ins (fdiv span (float_of_long (steps_per_revolution ks)))"
  have span: "1 / 1000 < span" using span_positive(2) [OF assms(4)] by (simp add: span_def)
  then have span0: "0 \<le> span" by simp
  have ins: "0 \<le> ins" "ins \<le> span" using span0 by (simp_all add: ins_def)
  have c: "constrain (fsub a (min_angle_rad ks)) 0 span = ins"
    using span0 by (simp add: constrain_max_min ins_def)
  note b = bounded_quotient_bound [OF assms(1,2) span ins]
  have q0: "0 \<le> q" using b(1) by (simp add: q_def)
  have z: "0 \<le> fadd q (1 / 2)" "fadd q (1 / 2) < 32771" using b(2,3) by (simp_all add: q_def)
  have fl: "0 \<le> \<lfloor>fadd q (1 / 2)\<rfloor>" "\<lfloor>fadd q (1 / 2)\<rfloor> < 32771"
    using z by (simp_all add: floor_less_iff)
  have r: "round_macro_f32 q = Some \<lfloor>fadd q (1 / 2)\<rfloor>"
    using q0 fl by (simp add: round_macro_f32_eq Let_def)
  have "new_step_output_f32 ks a off
      = Some (constrain \<lfloor>fadd q (1 / 2)\<rfloor> 0 (steps_per_revolution ks))"
    using assms(1,3,4) r
    by (simp add: new_step_output_f32_def Let_def c q_def flip: span_def)
  also have "constrain \<lfloor>fadd q (1 / 2)\<rfloor> 0 (steps_per_revolution ks)
      = max 0 (min (steps_per_revolution ks) \<lfloor>fadd q (1 / 2)\<rfloor>)"
    using assms(1) by (simp add: constrain_max_min)
  finally show ?thesis by (simp add: q_def ins_def span_def)
qed

lemma target_f32_bounded:
  assumes "is_bounded ks"
    and "binary32 0.001 < fsub (max_angle_rad ks) (min_angle_rad ks)"
    and "0 < num_detents ks"
    and sp: "sp = fdiv (fsub (max_angle_rad ks) (min_angle_rad ks)) (float_of_long (num_detents ks))"
    and q: "q = fdiv (fsub a (min_angle_rad ks)) sp"
    and r: "r = (if q \<ge> 0 then \<lfloor>fadd q (1 / 2)\<rfloor> else \<lceil>fsub q (1 / 2)\<rceil>)"
  shows "calculated_foc_target_angle_f32 ks a off =
     (if - 2147483648 \<le> r \<and> r < 2147483648
      then Some (max (min_angle_rad ks) (min (max_angle_rad ks)
             (fadd (min_angle_rad ks) (fmul (float_of_long (max 0 (min (num_detents ks) r))) sp))))
      else None)"
proof -
  have le: "min_angle_rad ks \<le> max_angle_rad ks"
    using span_positive(1) [OF assms(2)] by simp
  have c1: "constrain n 0 (num_detents ks) = max 0 (min (num_detents ks) n)" for n
    using assms(3) by (simp add: constrain_max_min)
  have c2: "constrain x (min_angle_rad ks) (max_angle_rad ks)
      = max (min_angle_rad ks) (min (max_angle_rad ks) x)" for x
    using le by (rule constrain_max_min)
  show ?thesis
    using assms(1-3)
    by (simp add: calculated_foc_target_angle_f32_def Let_def round_macro_f32_eq c1 c2 sp q r)
qed

lemma reachable_targets_subset:
  assumes "is_bounded ks"
    and "binary32 0.001 < fsub (max_angle_rad ks) (min_angle_rad ks)"
    and "0 < num_detents ks"
  shows "{t. \<exists>a. calculated_foc_target_angle_f32 ks a off = Some t}
     \<subseteq> (\<lambda>i. max (min_angle_rad ks) (min (max_angle_rad ks)
            (fadd (min_angle_rad ks)
               (fmul (float_of_long i)
                  (fdiv (fsub (max_angle_rad ks) (min_angle_rad ks))
                        (float_of_long (num_detents ks)))))))
         ` {0..num_detents ks}"
proof
  fix t
  assume "t \<in> {t. \<exists>a. calculated_foc_target_angle_f32 ks a off = Some t}"
  then obtain a where a: "calculated_foc_target_angle_f32 ks a off = Some t" by blast
  define sp where
    "sp = fdiv (fsub (max_angle_rad ks) (min_angle_rad ks)) (float_of_long (num_detents ks))"
  define q where "q = fdiv (fsub a (min_angle_rad ks)) sp"
  define r where "r = (if q \<ge> 0 then \<lfloor>fadd q (1 / 2)\<rfloor> else \<lceil>fsub q (1 / 2)\<rceil>)"
  define i where "i = max 0 (min (num_detents ks) r)"
  have i: "i \<in> {0..num_detents ks}" using assms(3) by (simp add: i_def)
  have "t = max (min_angle_rad ks) (min (max_angle_rad ks)
            (fadd (min_angle_rad ks) (fmul (float_of_long i) sp)))"
    using a target_f32_bounded [OF assms sp_def q_def r_def, of off]
    by (simp add: i_def split: if_splits)
  then show "t \<in> (\<lambda>i. max (min_angle_rad ks) (min (max_angle_rad ks)
            (fadd (min_angle_rad ks)
               (fmul (float_of_long i)
                  (fdiv (fsub (max_angle_rad ks) (min_angle_rad ks))
                        (float_of_long (num_detents ks)))))))
         ` {0..num_detents ks}"
    using i unfolding sp_def by (rule image_eqI)
qed

lemma target_f32_at_min:
  assumes "is_bounded ks"
    and "binary32 0.001 < fsub (max_angle_rad ks) (min_angle_rad ks)"
    and "0 < num_detents ks"
    and "binary32 (min_angle_rad ks) = min_angle_rad ks"
  shows "calculated_foc_target_angle_f32 ks (min_angle_rad ks) off = Some (min_angle_rad ks)"
proof -
  define sp where
    "sp = fdiv (fsub (max_angle_rad ks) (min_angle_rad ks)) (float_of_long (num_detents ks))"
  have q: "0 = fdiv (fsub (min_angle_rad ks) (min_angle_rad ks)) sp"
    by (simp add: fsub_def fdiv_def binary32_zero)
  have r: "(0::int) = (if (0::real) \<ge> 0 then \<lfloor>fadd 0 (1 / 2)\<rfloor> else \<lceil>fsub 0 (1 / 2)\<rceil>)"
    by (simp add: fadd_def half_value)
  have le: "min_angle_rad ks \<le> max_angle_rad ks"
    using span_positive(1) [OF assms(2)] by simp
  show ?thesis
    using target_f32_bounded [OF assms(1-3) sp_def q r, of off] assms(3,4) le
    by (simp add: float_of_long_def fmul_def fadd_def binary32_zero)
qed

subsection \<open>The target angle in bounded mode with detents\<close>

text \<open>
  With 19 detents on the third preset the snap points are the rounded values of
  \<open>i * spacing\<close> for \<open>i\<close> from 0 to 19. The last one lies below the stored maximum and the
  others lie below 3, so no shaft angle has the maximum as its target.
\<close>

lemma max_unreachable_with_19_detents:
  "max_angle_rad bounded_19_detents
     \<notin> {t. \<exists>a. calculated_foc_target_angle_f32 bounded_19_detents a 0 = Some t}"
proof -
  let ?K = "bounded_19_detents"
  have d_1: "binary32 PI_macro = 13176795 / 4194304"
    unfolding PI_macro_def by (rule binary32_eqI [where e = "1" and m = "13176795"]) simp_all
  have d_2: "fsub (13176795 / 4194304) 0 = 13176795 / 4194304"
    unfolding fsub_def by (rule binary32_eqI [where e = "1" and m = "13176795"]) simp_all
  have d_3: "float_of_long 19 = 19"
    unfolding float_of_long_def by (rule binary32_eqI [where e = "4" and m = "9961472"]) simp_all
  have d_4: "fdiv (13176795 / 4194304) 19 = 1387031 / 8388608"
    unfolding fdiv_def by (rule binary32_eqI [where e = "- 3" and m = "11096248"]) simp_all
  have d_5: "fdiv (13176795 / 4194304) (1387031 / 8388608) = 19"
    unfolding fdiv_def by (rule binary32_eqI [where e = "4" and m = "9961472"]) simp_all
  have d_6: "fadd 19 (1 / 2) = 39 / 2"
    unfolding fadd_def by (rule binary32_eqI [where e = "4" and m = "10223616"]) simp_all
  have d_7: "fmul 19 (1387031 / 8388608) = 6588397 / 2097152"
    unfolding fmul_def by (rule binary32_eqI [where e = "1" and m = "13176794"]) simp_all
  have d_8: "fadd 0 (6588397 / 2097152) = 6588397 / 2097152"
    unfolding fadd_def by (rule binary32_eqI [where e = "1" and m = "13176794"]) simp_all
  have mn: "min_angle_rad ?K = 0" and mx: "max_angle_rad ?K = 13176795 / 4194304"
    and kk: "num_detents ?K = 19" and b: "is_bounded ?K"
    by (simp_all add: bounded_19_detents_def store_f32_def setup_presets_def binary32_zero d_1)
  have span: "binary32 0.001 < fsub (max_angle_rad ?K) (min_angle_rad ?K)"
    unfolding eps_value mx mn d_2 by simp
  have k: "0 < num_detents ?K" by (simp add: kk)
  have sp: "1387031 / 8388608
      = fdiv (fsub (max_angle_rad ?K) (min_angle_rad ?K)) (float_of_long (num_detents ?K))"
    by (simp only: mx mn kk d_2 d_3 d_4)
  have below: "max (min_angle_rad ?K) (min (max_angle_rad ?K)
        (fadd (min_angle_rad ?K) (fmul (float_of_long i)
           (fdiv (fsub (max_angle_rad ?K) (min_angle_rad ?K)) (float_of_long (num_detents ?K))))))
      < 13176795 / 4194304" if i: "i \<in> {0..num_detents ?K}" for i
  proof -
    have y: "fadd 0 (fmul (float_of_long i) (1387031 / 8388608)) < 13176795 / 4194304"
    proof (cases "i = 19")
      case True
      then show ?thesis by (simp add: d_3 d_7 d_8)
    next
      case False
      then have i18: "0 \<le> i" "i \<le> 18" using i by (simp_all add: kk)
      have f0: "0 \<le> float_of_long i"
        unfolding float_of_long_def using i18(1) by (intro binary32_nonneg) simp
      have "float_of_long i \<le> 18 + 18 / 2 ^ 24 + 1 / 2 ^ 150"
        unfolding float_of_long_def using i18 by (intro binary32_upper) simp_all
      then have "float_of_long i * (1387031 / 8388608) \<le> (18 + 18 / 2 ^ 24 + 1 / 2 ^ 150) * (1387031 / 8388608)"
        by (intro mult_right_mono) simp_all
      then have p1: "float_of_long i * (1387031 / 8388608) \<le> 298 / 100" by simp
      have p0: "0 \<le> float_of_long i * (1387031 / 8388608)" using f0 by simp
      have m0: "0 \<le> fmul (float_of_long i) (1387031 / 8388608)"
        unfolding fmul_def using p0 by (rule binary32_nonneg)
      have "fmul (float_of_long i) (1387031 / 8388608) \<le> 298 / 100 + (298 / 100) / 2 ^ 24 + 1 / 2 ^ 150"
        unfolding fmul_def using p0 p1 by (rule binary32_upper)
      then have m1: "fmul (float_of_long i) (1387031 / 8388608) \<le> 299 / 100" by simp
      have "fadd 0 (fmul (float_of_long i) (1387031 / 8388608)) \<le> 299 / 100 + (299 / 100) / 2 ^ 24 + 1 / 2 ^ 150"
        unfolding fadd_def using m0 m1 by (intro binary32_upper) simp_all
      then show ?thesis by simp
    qed
    show ?thesis
      unfolding mn mx kk d_2 d_3 d_4 using y by simp
  qed
  have "t < 13176795 / 4194304" if "calculated_foc_target_angle_f32 ?K a 0 = Some t" for a t
  proof -
    have "t \<in> {t. \<exists>a. calculated_foc_target_angle_f32 ?K a 0 = Some t}" using that by blast
    then obtain i where "i \<in> {0..num_detents ?K}"
      and "t = max (min_angle_rad ?K) (min (max_angle_rad ?K)
        (fadd (min_angle_rad ?K) (fmul (float_of_long i)
           (fdiv (fsub (max_angle_rad ?K) (min_angle_rad ?K)) (float_of_long (num_detents ?K))))))"
      using reachable_targets_subset [OF b span k, of 0] by blast
    then show ?thesis using below by simp
  qed
  then show ?thesis
    unfolding mx by fastforce
qed

text \<open>
  Claim C1, as stated, fails in binary32, where the quotient, the products and the sums
  are rounded. With the third preset as stored (bounded, 0 to \<^verbatim>\<open>_PI\<close>, 8 detents) and
  the shaft at 16470993 / 16777216, about 0.98175, the exact quotient is about
  2.49999989, so the formula gives index 2 and the target 13176795 / 16777216; the
  binary32 quotient is 2.5, and the sketch commands index 3, the target
  2470649 / 2097152. After the commands \<^verbatim>\<open>M2\<close> and \<^verbatim>\<open>d19\<close> (19 detents) the stored
  maximum is 13176795 / 4194304, about 3.14159274, while a shaft at the maximum is sent
  to 6588397 / 2097152, about 3.14159250, one unit in the last place below it: the
  maximum is not among the reachable targets.
\<close>

theorem snap_points_rounded_counterexample:
  "calculated_foc_target_angle_f32 (store_f32 (setup_presets ! 2)) (16470993 / 16777216) 0
     = Some (2470649 / 2097152)
   \<and> calculated_foc_target_angle (store_f32 (setup_presets ! 2)) (16470993 / 16777216) 0
     = 13176795 / 16777216
   \<and> max_angle_rad bounded_19_detents = 13176795 / 4194304
   \<and> calculated_foc_target_angle_f32 bounded_19_detents (13176795 / 4194304) 0 = Some (6588397 / 2097152)"
proof -
  let ?K = "bounded_19_detents"
  let ?P = "store_f32 (setup_presets ! 2)"
  have d_1: "binary32 PI_macro = 13176795 / 4194304"
    unfolding PI_macro_def by (rule binary32_eqI [where e = "1" and m = "13176795"]) simp_all
  have d_2: "fsub (13176795 / 4194304) 0 = 13176795 / 4194304"
    unfolding fsub_def by (rule binary32_eqI [where e = "1" and m = "13176795"]) simp_all
  have d_3: "float_of_long 19 = 19"
    unfolding float_of_long_def by (rule binary32_eqI [where e = "4" and m = "9961472"]) simp_all
  have d_4: "fdiv (13176795 / 4194304) 19 = 1387031 / 8388608"
    unfolding fdiv_def by (rule binary32_eqI [where e = "- 3" and m = "11096248"]) simp_all
  have d_5: "fdiv (13176795 / 4194304) (1387031 / 8388608) = 19"
    unfolding fdiv_def by (rule binary32_eqI [where e = "4" and m = "9961472"]) simp_all
  have d_6: "fadd 19 (1 / 2) = 39 / 2"
    unfolding fadd_def by (rule binary32_eqI [where e = "4" and m = "10223616"]) simp_all
  have d_7: "fmul 19 (1387031 / 8388608) = 6588397 / 2097152"
    unfolding fmul_def by (rule binary32_eqI [where e = "1" and m = "13176794"]) simp_all
  have d_8: "fadd 0 (6588397 / 2097152) = 6588397 / 2097152"
    unfolding fadd_def by (rule binary32_eqI [where e = "1" and m = "13176794"]) simp_all
  have d_9: "float_of_long 8 = 8"
    unfolding float_of_long_def by (rule binary32_eqI [where e = "3" and m = "8388608"]) simp_all
  have d_10: "fdiv (13176795 / 4194304) 8 = 13176795 / 33554432"
    unfolding fdiv_def by (rule binary32_eqI [where e = "- 2" and m = "13176795"]) simp_all
  have d_11: "fsub (16470993 / 16777216) 0 = 16470993 / 16777216"
    unfolding fsub_def by (rule binary32_eqI [where e = "- 1" and m = "16470993"]) simp_all
  have d_12: "fdiv (16470993 / 16777216) (13176795 / 33554432) = 5 / 2"
    unfolding fdiv_def by (rule binary32_eqI [where e = "1" and m = "10485760"]) simp_all
  have d_13: "fadd (5 / 2) (1 / 2) = 3"
    unfolding fadd_def by (rule binary32_eqI [where e = "1" and m = "12582912"]) simp_all
  have d_14: "float_of_long 3 = 3"
    unfolding float_of_long_def by (rule binary32_eqI [where e = "1" and m = "12582912"]) simp_all
  have d_15: "fmul 3 (13176795 / 33554432) = 2470649 / 2097152"
    unfolding fmul_def by (rule binary32_eqI [where e = "0" and m = "9882596"]) simp_all
  have d_16: "fadd 0 (2470649 / 2097152) = 2470649 / 2097152"
    unfolding fadd_def by (rule binary32_eqI [where e = "0" and m = "9882596"]) simp_all
  have mn: "min_angle_rad ?K = 0" and mx: "max_angle_rad ?K = 13176795 / 4194304"
    and kk: "num_detents ?K = 19" and b: "is_bounded ?K"
    by (simp_all add: bounded_19_detents_def store_f32_def setup_presets_def binary32_zero d_1)
  have P: "min_angle_rad ?P = 0" "max_angle_rad ?P = 13176795 / 4194304" "num_detents ?P = 8"
    "is_bounded ?P"
    by (simp_all add: store_f32_def setup_presets_def binary32_zero d_1)
  have span: "binary32 0.001 < fsub (max_angle_rad ?K) (min_angle_rad ?K)"
    unfolding eps_value mx mn d_2 by simp
  have spanP: "binary32 0.001 < fsub (max_angle_rad ?P) (min_angle_rad ?P)"
    unfolding eps_value P d_2 by simp
  have k: "0 < num_detents ?K" by (simp add: kk)
  have kP: "0 < num_detents ?P" by (simp add: P)
  have sp: "1387031 / 8388608
      = fdiv (fsub (max_angle_rad ?K) (min_angle_rad ?K)) (float_of_long (num_detents ?K))"
    by (simp only: mx mn kk d_2 d_3 d_4)
  have spP: "13176795 / 33554432
      = fdiv (fsub (max_angle_rad ?P) (min_angle_rad ?P)) (float_of_long (num_detents ?P))"
    by (simp only: P d_2 d_9 d_10)
  have q: "19 = fdiv (fsub (13176795 / 4194304) (min_angle_rad ?K)) (1387031 / 8388608)"
    by (simp only: mn d_2 d_5)
  have qP: "5 / 2 = fdiv (fsub (16470993 / 16777216) (min_angle_rad ?P)) (13176795 / 33554432)"
    by (simp only: P d_11 d_12)
  have r: "(19::int) = (if (19 :: real) \<ge> 0 then \<lfloor>fadd 19 (1 / 2)\<rfloor>
      else \<lceil>fsub 19 (1 / 2)\<rceil>)"
    by (simp add: d_6)
  have rP: "(3::int) = (if (5 / 2 :: real) \<ge> 0 then \<lfloor>fadd (5 / 2) (1 / 2)\<rfloor>
      else \<lceil>fsub (5 / 2) (1 / 2)\<rceil>)"
    by (simp add: d_13)
  have top: "calculated_foc_target_angle_f32 ?K (13176795 / 4194304) 0 = Some (6588397 / 2097152)"
    using target_f32_bounded [OF b span k sp q r, of 0]
    by (simp add: mn mx kk d_3 d_7 d_8)
  have f: "calculated_foc_target_angle_f32 ?P (16470993 / 16777216) 0 = Some (2470649 / 2097152)"
    using target_f32_bounded [OF P(4) spanP kP spP qP rP, of 0]
    by (simp add: P d_14 d_15 d_16)
  have e: "calculated_foc_target_angle ?P (16470993 / 16777216) 0 = 13176795 / 16777216"
    by (simp add: calculated_foc_target_angle_def P Let_def constrain_def round_macro_def
        trunc_long_def)
  from f e mx top show ?thesis by blast
qed

text \<open>
  Claim C1, amended. For bounded settings with a span above 0.001 (both as binary32
  values) and \<open>k = num_detents\<close> with \<open>0 < k \<le> 32767\<close>, the target at a shaft angle is
  \<open>min + i * spacing\<close> clamped to \<open>[min, max]\<close>, where \<open>spacing = span / k\<close>, \<open>i\<close> is the
  rounded quotient \<open>(angle - min) / spacing\<close> clamped to \<open>0 .. k\<close>, every operation is
  rounded to binary32, and rounding a quotient means adding 0.5 (subtracting it below
  zero) and truncating; the target is defined when the rounded quotient fits a \<^verbatim>\<open>long\<close>.
  Every target lies in \<open>[min, max]\<close>. The targets reached over all shaft angles are at
  most \<open>k + 1\<close> values, and \<open>min\<close> is one of them.
\<close>

theorem haptic_transform_bounded_detents_binary32:
  assumes "is_bounded ks"
    and "binary32 0.001 < fsub (max_angle_rad ks) (min_angle_rad ks)"
    and "0 < num_detents ks" and "num_detents ks \<le> 32767"
    and "in_float_range (min_angle_rad ks)" and "in_float_range (max_angle_rad ks)"
    and "in_float_range a"
    and sp: "sp = fdiv (fsub (max_angle_rad ks) (min_angle_rad ks)) (float_of_long (num_detents ks))"
    and q: "q = fdiv (fsub a (min_angle_rad ks)) sp"
    and r: "r = (if q \<ge> 0 then \<lfloor>fadd q (1 / 2)\<rfloor> else \<lceil>fsub q (1 / 2)\<rceil>)"
  shows "calculated_foc_target_angle_f32 ks a off =
           (if - 2147483648 \<le> r \<and> r < 2147483648
            then Some (max (min_angle_rad ks) (min (max_angle_rad ks)
                   (fadd (min_angle_rad ks)
                      (fmul (float_of_long (max 0 (min (num_detents ks) r))) sp))))
            else None)
     \<and> (\<forall>t. calculated_foc_target_angle_f32 ks a off = Some t \<longrightarrow>
            min_angle_rad ks \<le> t \<and> t \<le> max_angle_rad ks)
     \<and> finite {t. \<exists>a'. calculated_foc_target_angle_f32 ks a' off = Some t}
     \<and> card {t. \<exists>a'. calculated_foc_target_angle_f32 ks a' off = Some t}
           \<le> nat (num_detents ks) + 1
     \<and> calculated_foc_target_angle_f32 ks (min_angle_rad ks) off = Some (min_angle_rad ks)"
proof (intro conjI)
  have le: "min_angle_rad ks \<le> max_angle_rad ks"
    using span_positive(1) [OF assms(2)] by simp
  show eq: "calculated_foc_target_angle_f32 ks a off =
           (if - 2147483648 \<le> r \<and> r < 2147483648
            then Some (max (min_angle_rad ks) (min (max_angle_rad ks)
                   (fadd (min_angle_rad ks)
                      (fmul (float_of_long (max 0 (min (num_detents ks) r))) sp))))
            else None)"
    using assms(1-3) sp q r by (rule target_f32_bounded)
  show "\<forall>t. calculated_foc_target_angle_f32 ks a off = Some t \<longrightarrow>
            min_angle_rad ks \<le> t \<and> t \<le> max_angle_rad ks"
    using le by (auto simp add: eq split: if_splits)
  let ?g = "\<lambda>i. max (min_angle_rad ks) (min (max_angle_rad ks)
            (fadd (min_angle_rad ks)
               (fmul (float_of_long i)
                  (fdiv (fsub (max_angle_rad ks) (min_angle_rad ks))
                        (float_of_long (num_detents ks))))))"
  have sub: "{t. \<exists>a'. calculated_foc_target_angle_f32 ks a' off = Some t}
      \<subseteq> ?g ` {0..num_detents ks}"
    using assms(1-3) by (rule reachable_targets_subset)
  show "finite {t. \<exists>a'. calculated_foc_target_angle_f32 ks a' off = Some t}"
    using sub by (rule finite_subset) simp
  have "card {t. \<exists>a'. calculated_foc_target_angle_f32 ks a' off = Some t}
      \<le> card (?g ` {0..num_detents ks})"
    using sub by (intro card_mono) simp_all
  also have "\<dots> \<le> card {0..num_detents ks}" by (rule card_image_le) simp
  also have "\<dots> = nat (num_detents ks) + 1" using assms(3) by simp
  finally show "card {t. \<exists>a'. calculated_foc_target_angle_f32 ks a' off = Some t}
           \<le> nat (num_detents ks) + 1" .
  have "binary32 (min_angle_rad ks) = min_angle_rad ks"
    using assms(5) by (simp add: in_float_range_def)
  with assms(1-3)
  show "calculated_foc_target_angle_f32 ks (min_angle_rad ks) off = Some (min_angle_rad ks)"
    by (rule target_f32_at_min)
qed

text \<open>
  The third preset as stored (bounded, 0 to \<^verbatim>\<open>_PI\<close>, 8 detents). A shaft at half of
  \<^verbatim>\<open>_PI\<close> has quotient 4 and is its own target. A shaft at 1 rad has quotient about
  2.546, which rounds to 3, not down to 2. At most nine targets are reached, 0 among
  them.
\<close>

theorem haptic_transform_bounded_detents_binary32_witness:
  "calculated_foc_target_angle_f32 (store_f32 (setup_presets ! 2)) (binary32 PI_macro / 2) 0
     = Some (binary32 PI_macro / 2)
   \<and> \<lfloor>fadd (fdiv (fsub (binary32 PI_macro / 2) 0) (13176795 / 33554432)) (1 / 2)\<rfloor> = 4
   \<and> calculated_foc_target_angle_f32 (store_f32 (setup_presets ! 2)) 1 0 = Some (2470649 / 2097152)
   \<and> \<lfloor>fadd (fdiv (fsub 1 0) (13176795 / 33554432)) (1 / 2)\<rfloor> = 3
   \<and> card {t. \<exists>a'. calculated_foc_target_angle_f32 (store_f32 (setup_presets ! 2)) a' 0 = Some t}
       \<le> 9
   \<and> calculated_foc_target_angle_f32 (store_f32 (setup_presets ! 2)) 0 0 = Some 0"
proof -
  let ?K = "store_f32 (setup_presets ! 2)"
  have p_1: "binary32 PI_macro = 13176795 / 4194304"
    unfolding PI_macro_def by (rule binary32_eqI [where e = "1" and m = "13176795"]) simp_all
  have p_2: "binary32 (13176795 / 4194304) = 13176795 / 4194304"
    by (rule binary32_eqI [where e = "1" and m = "13176795"]) simp_all
  have p_3: "fsub (13176795 / 4194304) 0 = 13176795 / 4194304"
    unfolding fsub_def by (rule binary32_eqI [where e = "1" and m = "13176795"]) simp_all
  have p_4: "float_of_long 8 = 8"
    unfolding float_of_long_def by (rule binary32_eqI [where e = "3" and m = "8388608"]) simp_all
  have p_5: "fdiv (13176795 / 4194304) 8 = 13176795 / 33554432"
    unfolding fdiv_def by (rule binary32_eqI [where e = "- 2" and m = "13176795"]) simp_all
  have p_6: "binary32 (13176795 / 8388608) = 13176795 / 8388608"
    by (rule binary32_eqI [where e = "0" and m = "13176795"]) simp_all
  have p_7: "fsub (13176795 / 8388608) 0 = 13176795 / 8388608"
    unfolding fsub_def by (rule binary32_eqI [where e = "0" and m = "13176795"]) simp_all
  have p_8: "fdiv (13176795 / 8388608) (13176795 / 33554432) = 4"
    unfolding fdiv_def by (rule binary32_eqI [where e = "2" and m = "8388608"]) simp_all
  have p_9: "fadd 4 (1 / 2) = 9 / 2"
    unfolding fadd_def by (rule binary32_eqI [where e = "2" and m = "9437184"]) simp_all
  have p_10: "float_of_long 4 = 4"
    unfolding float_of_long_def by (rule binary32_eqI [where e = "2" and m = "8388608"]) simp_all
  have p_11: "fmul 4 (13176795 / 33554432) = 13176795 / 8388608"
    unfolding fmul_def by (rule binary32_eqI [where e = "0" and m = "13176795"]) simp_all
  have p_12: "fadd 0 (13176795 / 8388608) = 13176795 / 8388608"
    unfolding fadd_def by (rule binary32_eqI [where e = "0" and m = "13176795"]) simp_all
  have p_13: "binary32 1 = 1"
    by (rule binary32_eqI [where e = "0" and m = "8388608"]) simp_all
  have p_14: "fsub 1 0 = 1"
    unfolding fsub_def by (rule binary32_eqI [where e = "0" and m = "8388608"]) simp_all
  have p_15: "fdiv 1 (13176795 / 33554432) = 10680707 / 4194304"
    unfolding fdiv_def by (rule binary32_eqI [where e = "1" and m = "10680707"]) simp_all
  have p_16: "fadd (10680707 / 4194304) (1 / 2) = 12777859 / 4194304"
    unfolding fadd_def by (rule binary32_eqI [where e = "1" and m = "12777859"]) simp_all
  have p_17: "float_of_long 3 = 3"
    unfolding float_of_long_def by (rule binary32_eqI [where e = "1" and m = "12582912"]) simp_all
  have p_18: "fmul 3 (13176795 / 33554432) = 2470649 / 2097152"
    unfolding fmul_def by (rule binary32_eqI [where e = "0" and m = "9882596"]) simp_all
  have p_19: "fadd 0 (2470649 / 2097152) = 2470649 / 2097152"
    unfolding fadd_def by (rule binary32_eqI [where e = "0" and m = "9882596"]) simp_all
  have mn: "min_angle_rad ?K = 0" and mx: "max_angle_rad ?K = 13176795 / 4194304"
    and kk: "num_detents ?K = 8" and b: "is_bounded ?K"
    by (simp_all add: store_f32_def setup_presets_def binary32_zero p_1)
  have half: "binary32 PI_macro / 2 = 13176795 / 8388608" by (simp add: p_1)
  have span: "binary32 0.001 < fsub (max_angle_rad ?K) (min_angle_rad ?K)"
    unfolding eps_value mx mn p_3 by simp
  have k: "0 < num_detents ?K" "num_detents ?K \<le> 32767" by (simp_all add: kk)
  have r0: "in_float_range (min_angle_rad ?K)"
    by (simp add: mn in_float_range_def binary32_zero)
  have r1: "in_float_range (max_angle_rad ?K)"
    unfolding mx in_float_range_def by (simp add: p_2)
  have ra: "in_float_range (13176795 / 8388608)" "in_float_range 1"
    unfolding in_float_range_def by (simp_all add: p_6 p_13)
  have sp: "13176795 / 33554432
      = fdiv (fsub (max_angle_rad ?K) (min_angle_rad ?K)) (float_of_long (num_detents ?K))"
    by (simp only: mx mn kk p_3 p_4 p_5)
  have q1: "4 = fdiv (fsub (13176795 / 8388608) (min_angle_rad ?K)) (13176795 / 33554432)"
    by (simp only: mn p_7 p_8)
  have q2: "10680707 / 4194304 = fdiv (fsub 1 (min_angle_rad ?K)) (13176795 / 33554432)"
    by (simp only: mn p_14 p_15)
  have f1: "\<lfloor>fadd 4 (1 / 2)\<rfloor> = 4" by (simp add: p_9)
  have f2: "\<lfloor>fadd (10680707 / 4194304) (1 / 2)\<rfloor> = 3" by (simp add: p_16)
  have i1: "(4::int) = (if (4 :: real) \<ge> 0 then \<lfloor>fadd 4 (1 / 2)\<rfloor>
      else \<lceil>fsub 4 (1 / 2)\<rceil>)"
    by (simp add: f1)
  have i2: "(3::int) = (if (10680707 / 4194304 :: real) \<ge> 0 then \<lfloor>fadd (10680707 / 4194304) (1 / 2)\<rfloor>
      else \<lceil>fsub (10680707 / 4194304) (1 / 2)\<rceil>)"
    by (simp add: f2)
  note w1 = haptic_transform_bounded_detents_binary32 [OF b span k r0 r1 ra(1) sp q1 i1, of 0]
  note w2 = haptic_transform_bounded_detents_binary32 [OF b span k r0 r1 ra(2) sp q2 i2, of 0]
  have t1: "calculated_foc_target_angle_f32 ?K (binary32 PI_macro / 2) 0
      = Some (binary32 PI_macro / 2)"
    unfolding half using w1 by (simp add: mn mx kk p_10 p_11 p_12)
  have t2: "calculated_foc_target_angle_f32 ?K 1 0 = Some (2470649 / 2097152)"
    using w2 by (simp add: mn mx kk p_17 p_18 p_19)
  have c: "card {t. \<exists>a'. calculated_foc_target_angle_f32 ?K a' 0 = Some t} \<le> 9"
    using w1 by (simp add: kk)
  have m: "calculated_foc_target_angle_f32 ?K 0 0 = Some 0"
    using w1 by (simp add: mn)
  have g1: "\<lfloor>fadd (fdiv (fsub (binary32 PI_macro / 2) 0) (13176795 / 33554432)) (1 / 2)\<rfloor> = 4"
    unfolding half by (simp only: p_7 p_8 f1)
  have g2: "\<lfloor>fadd (fdiv (fsub 1 0) (13176795 / 33554432)) (1 / 2)\<rfloor> = 3"
    by (simp only: p_14 p_15 f2)
  from t1 g1 t2 g2 c m show ?thesis by blast
qed

subsection \<open>The step output\<close>

text \<open>
  Claim C2, as stated, gives the step by a quotient in exact arithmetic and lets the
  unbounded step be any integer. With the third preset as stored (bounded, 0 to
  \<^verbatim>\<open>_PI\<close>, 8 steps) and the shaft at 16470993 / 16777216, about 0.98175, the exact
  quotient is about 2.49999989 and rounds to 2; the binary32 quotient is 2.5, and the
  sketch reports step 3.
\<close>

theorem step_differs_from_exact_formula_counterexample:
  "new_step_output_f32 (store_f32 (setup_presets ! 2)) (16470993 / 16777216) 0 = Some 3
   \<and> new_step_output (store_f32 (setup_presets ! 2)) (16470993 / 16777216) 0 = 2"
proof -
  let ?K = "store_f32 (setup_presets ! 2)"
  have c_1: "binary32 PI_macro = 13176795 / 4194304"
    unfolding PI_macro_def by (rule binary32_eqI [where e = "1" and m = "13176795"]) simp_all
  have c_2: "fsub (13176795 / 4194304) 0 = 13176795 / 4194304"
    unfolding fsub_def by (rule binary32_eqI [where e = "1" and m = "13176795"]) simp_all
  have c_3: "float_of_long 8 = 8"
    unfolding float_of_long_def by (rule binary32_eqI [where e = "3" and m = "8388608"]) simp_all
  have c_4: "fdiv (13176795 / 4194304) 8 = 13176795 / 33554432"
    unfolding fdiv_def by (rule binary32_eqI [where e = "- 2" and m = "13176795"]) simp_all
  have c_5: "fsub (16470993 / 16777216) 0 = 16470993 / 16777216"
    unfolding fsub_def by (rule binary32_eqI [where e = "- 1" and m = "16470993"]) simp_all
  have c_6: "fdiv (16470993 / 16777216) (13176795 / 33554432) = 5 / 2"
    unfolding fdiv_def by (rule binary32_eqI [where e = "1" and m = "10485760"]) simp_all
  have c_7: "fadd (5 / 2) (1 / 2) = 3"
    unfolding fadd_def by (rule binary32_eqI [where e = "1" and m = "12582912"]) simp_all
  have K: "min_angle_rad ?K = 0" "max_angle_rad ?K = 13176795 / 4194304" "is_bounded ?K"
    "steps_per_revolution ?K = 8"
    by (simp_all add: store_f32_def setup_presets_def binary32_zero c_1)
  have valid: "binary32 0.001 < fsub (max_angle_rad ?K) (min_angle_rad ?K)"
    unfolding eps_value K c_2 by simp
  have n: "0 < steps_per_revolution ?K" "steps_per_revolution ?K \<le> 32767" by (simp_all add: K)
  have f: "new_step_output_f32 ?K (16470993 / 16777216) 0 = Some 3"
    using step_f32_bounded [OF n K(3) valid, of "16470993 / 16777216" 0]
    by (simp add: K c_2 c_3 c_4 c_5 c_6 c_7)
  have e: "new_step_output ?K (16470993 / 16777216) 0 = 2"
    by (simp add: new_step_output_def K Let_def constrain_def round_macro_def trunc_long_def)
  from f e show ?thesis by blast
qed

text \<open>
  Claim C2, amended. With \<open>N = steps_per_revolution \<le> 32767\<close> and every operation rounded
  to binary32: the step is 0 when \<open>N \<le> 0\<close>; when bounded with a span of at most 0.001 it
  is 0; when bounded with a span above 0.001 it is always defined and is the rounded
  quotient of the angle clamped into the span by \<open>span / N\<close>, clamped to \<open>0 .. N\<close>; when
  unbounded it is the rounded quotient of \<open>angle - offset\<close> by \<open>2\<pi> / N\<close> with no clamp,
  defined exactly when that fits a \<^verbatim>\<open>long\<close>. Rounding a quotient means adding 0.5
  (subtracting it below zero) in binary32 and truncating. Every step that is returned
  lies in the range of a 32-bit \<^verbatim>\<open>long\<close>.
\<close>

theorem step_quantizer_binary32:
  assumes N: "N = steps_per_revolution ks" and N_hi: "N \<le> 32767"
    and "in_float_range (min_angle_rad ks)" and "in_float_range (max_angle_rad ks)"
    and "in_float_range a" and "in_float_range off"
    and sp: "sp = fsub (max_angle_rad ks) (min_angle_rad ks)"
    and qb: "qb = fdiv (max 0 (min sp (fsub a (min_angle_rad ks)))) (fdiv sp (float_of_long N))"
    and qu: "qu = fdiv (fsub a off) (fdiv (binary32 TWO_PI_macro) (float_of_long N))"
    and ru: "ru = (if qu \<ge> 0 then \<lfloor>fadd qu (1 / 2)\<rfloor> else \<lceil>fsub qu (1 / 2)\<rceil>)"
  shows "(N \<le> 0 \<longrightarrow> new_step_output_f32 ks a off = Some 0)
     \<and> (0 < N \<and> is_bounded ks \<and> sp \<le> binary32 0.001 \<longrightarrow>
           new_step_output_f32 ks a off = Some 0)
     \<and> (0 < N \<and> is_bounded ks \<and> binary32 0.001 < sp \<longrightarrow>
           new_step_output_f32 ks a off = Some (max 0 (min N \<lfloor>fadd qb (1 / 2)\<rfloor>)))
     \<and> (0 < N \<and> \<not> is_bounded ks \<longrightarrow>
           new_step_output_f32 ks a off
             = (if - 2147483648 \<le> ru \<and> ru < 2147483648 then Some ru else None))
     \<and> (\<forall>n. new_step_output_f32 ks a off = Some n \<longrightarrow> - 2147483648 \<le> n \<and> n < 2147483648)"
proof -
  have c1: "N \<le> 0 \<longrightarrow> new_step_output_f32 ks a off = Some 0"
    by (simp add: new_step_output_f32_def N)
  have c2: "0 < N \<and> is_bounded ks \<and> sp \<le> binary32 0.001 \<longrightarrow>
      new_step_output_f32 ks a off = Some 0"
    by (simp add: new_step_output_f32_def N sp Let_def)
  have c3: "0 < N \<and> is_bounded ks \<and> binary32 0.001 < sp \<longrightarrow>
      new_step_output_f32 ks a off = Some (max 0 (min N \<lfloor>fadd qb (1 / 2)\<rfloor>))"
    using step_f32_bounded [of ks a off] N_hi by (simp add: N sp qb)
  have c4: "0 < N \<and> \<not> is_bounded ks \<longrightarrow>
      new_step_output_f32 ks a off
        = (if - 2147483648 \<le> ru \<and> ru < 2147483648 then Some ru else None)"
    by (auto simp add: new_step_output_f32_def N Let_def round_macro_f32_eq qu ru)
  have c5: "\<forall>n. new_step_output_f32 ks a off = Some n \<longrightarrow> - 2147483648 \<le> n \<and> n < 2147483648"
  proof (intro allI impI)
    fix n
    assume n: "new_step_output_f32 ks a off = Some n"
    consider "N \<le> 0" | "0 < N" "is_bounded ks" "sp \<le> binary32 0.001"
      | "0 < N" "is_bounded ks" "binary32 0.001 < sp" | "0 < N" "\<not> is_bounded ks"
      by linarith
    then show "- 2147483648 \<le> n \<and> n < 2147483648"
    proof cases
      case 1
      then show ?thesis using c1 n by simp
    next
      case 2
      then show ?thesis using c2 n by simp
    next
      case 3
      then have "n = max 0 (min N \<lfloor>fadd qb (1 / 2)\<rfloor>)" using c3 n by simp
      then have "0 \<le> n" "n \<le> N" using 3(1) by simp_all
      then show ?thesis using N_hi by simp
    next
      case 4
      then show ?thesis using c4 n by (simp split: if_splits)
    qed
  qed
  from c1 c2 c3 c4 c5 show ?thesis by blast
qed

text \<open>
  The volume preset as stored (bounded, 0 to \<^verbatim>\<open>_2PI\<close>, 100 steps): a shaft at 1 rad has
  quotient about 15.92 and step 16; shafts at 10 rad and at -3 rad are clamped into the
  span and give steps 100 and 0. The first preset (unbounded, 360 steps): shafts at -20
  and 20 rad give steps -1146 and 1146, below zero and above 360. A span of 0.0005 gives
  step 0, and so does \<open>steps_per_revolution = 0\<close>.
\<close>

theorem step_quantizer_binary32_witness:
  "new_step_output_f32 (store_f32 (setup_presets ! 3)) 1 0 = Some 16
   \<and> new_step_output_f32 (store_f32 (setup_presets ! 3)) 10 0 = Some 100
   \<and> new_step_output_f32 (store_f32 (setup_presets ! 3)) (- 3) 0 = Some 0
   \<and> new_step_output_f32 (store_f32 (setup_presets ! 0)) (- 20) 0 = Some (- 1146)
   \<and> new_step_output_f32 (store_f32 (setup_presets ! 0)) 20 0 = Some 1146
   \<and> new_step_output_f32 (store_f32 degenerate_span_settings) 10 0 = Some 0
   \<and> new_step_output_f32 ((store_f32 (setup_presets ! 0))\<lparr>steps_per_revolution := 0\<rparr>) 10 0 = Some 0"
proof -
  let ?V = "store_f32 (setup_presets ! 3)"
  let ?U = "store_f32 (setup_presets ! 0)"
  let ?D = "store_f32 degenerate_span_settings"
  let ?Z = "(store_f32 (setup_presets ! 0))\<lparr>steps_per_revolution := 0\<rparr>"
  have v_1: "binary32 TWO_PI_macro = 13176795 / 2097152"
    unfolding TWO_PI_macro_def by (rule binary32_eqI [where e = "2" and m = "13176795"]) simp_all
  have v_2: "binary32 (13176795 / 2097152) = 13176795 / 2097152"
    by (rule binary32_eqI [where e = "2" and m = "13176795"]) simp_all
  have v_3: "fsub (13176795 / 2097152) 0 = 13176795 / 2097152"
    unfolding fsub_def by (rule binary32_eqI [where e = "2" and m = "13176795"]) simp_all
  have v_4: "float_of_long 100 = 100"
    unfolding float_of_long_def by (rule binary32_eqI [where e = "6" and m = "13107200"]) simp_all
  have v_5: "fdiv (13176795 / 2097152) 100 = 8433149 / 134217728"
    unfolding fdiv_def by (rule binary32_eqI [where e = "- 4" and m = "8433149"]) simp_all
  have v_6: "binary32 1 = 1"
    by (rule binary32_eqI [where e = "0" and m = "8388608"]) simp_all
  have v_7: "fsub 1 0 = 1"
    unfolding fsub_def by (rule binary32_eqI [where e = "0" and m = "8388608"]) simp_all
  have v_8: "fdiv 1 (8433149 / 134217728) = 16688605 / 1048576"
    unfolding fdiv_def by (rule binary32_eqI [where e = "3" and m = "16688605"]) simp_all
  have v_9: "fadd (16688605 / 1048576) (1 / 2) = 4303223 / 262144"
    unfolding fadd_def by (rule binary32_eqI [where e = "4" and m = "8606446"]) simp_all
  have v_10: "binary32 10 = 10"
    by (rule binary32_eqI [where e = "3" and m = "10485760"]) simp_all
  have v_11: "fsub 10 0 = 10"
    unfolding fsub_def by (rule binary32_eqI [where e = "3" and m = "10485760"]) simp_all
  have v_12: "fdiv (13176795 / 2097152) (8433149 / 134217728) = 100"
    unfolding fdiv_def by (rule binary32_eqI [where e = "6" and m = "13107200"]) simp_all
  have v_13: "fadd 100 (1 / 2) = 201 / 2"
    unfolding fadd_def by (rule binary32_eqI [where e = "6" and m = "13172736"]) simp_all
  have v_14: "binary32 (- 20) = - 20"
    by (rule binary32_eqI [where e = "4" and m = "- 10485760"]) simp_all
  have v_15: "float_of_long 360 = 360"
    unfolding float_of_long_def by (rule binary32_eqI [where e = "8" and m = "11796480"]) simp_all
  have v_16: "fdiv (13176795 / 2097152) 360 = 9370165 / 536870912"
    unfolding fdiv_def by (rule binary32_eqI [where e = "- 6" and m = "9370165"]) simp_all
  have v_17: "fsub (- 20) 0 = - 20"
    unfolding fsub_def by (rule binary32_eqI [where e = "4" and m = "- 10485760"]) simp_all
  have v_18: "fdiv (- 20) (9370165 / 536870912) = - (9387341 / 8192)"
    unfolding fdiv_def by (rule binary32_eqI [where e = "10" and m = "- 9387341"]) simp_all
  have v_19: "fsub (- (9387341 / 8192)) (1 / 2) = - (9391437 / 8192)"
    unfolding fsub_def by (rule binary32_eqI [where e = "10" and m = "- 9391437"]) simp_all
  have v_20: "fsub 20 0 = 20"
    unfolding fsub_def by (rule binary32_eqI [where e = "4" and m = "10485760"]) simp_all
  have v_21: "binary32 20 = 20"
    by (rule binary32_eqI [where e = "4" and m = "10485760"]) simp_all
  have v_22: "fdiv 20 (9370165 / 536870912) = 9387341 / 8192"
    unfolding fdiv_def by (rule binary32_eqI [where e = "10" and m = "9387341"]) simp_all
  have v_23: "fadd (9387341 / 8192) (1 / 2) = 9391437 / 8192"
    unfolding fadd_def by (rule binary32_eqI [where e = "10" and m = "9391437"]) simp_all
  have v_24: "binary32 (- 3) = - 3"
    by (rule binary32_eqI [where e = "1" and m = "- 12582912"]) simp_all
  have v_25: "fsub (- 3) 0 = - 3"
    unfolding fsub_def by (rule binary32_eqI [where e = "1" and m = "- 12582912"]) simp_all
  have v_26: "fdiv 0 (8433149 / 134217728) = 0"
    unfolding fdiv_def by (simp add: binary32_zero)
  have v_27: "fadd 0 (1 / 2) = 1 / 2"
    unfolding fadd_def by (rule binary32_eqI [where e = "- 1" and m = "8388608"]) simp_all
  have v_28: "binary32 (2001 / 2000) = 4196401 / 4194304"
    by (rule binary32_eqI [where e = "0" and m = "8392802"]) simp_all
  have v_29: "binary32 (4196401 / 4194304) = 4196401 / 4194304"
    by (rule binary32_eqI [where e = "0" and m = "8392802"]) simp_all
  have v_30: "fsub (4196401 / 4194304) 1 = 2097 / 4194304"
    unfolding fsub_def by (rule binary32_eqI [where e = "- 11" and m = "8589312"]) simp_all
  have z0: "in_float_range 0" by (simp add: in_float_range_def binary32_zero)
  have one: "in_float_range 1" unfolding in_float_range_def by (simp add: v_6)
  have ten: "in_float_range 10" unfolding in_float_range_def by (simp add: v_10)
  have m20: "in_float_range (- 20)" unfolding in_float_range_def by (simp add: v_14)
  have m3: "in_float_range (- 3)" unfolding in_float_range_def by (simp add: v_24)
  have p20: "in_float_range 20" unfolding in_float_range_def by (simp add: v_21)
  have tp: "in_float_range (13176795 / 2097152)" unfolding in_float_range_def by (simp add: v_2)
  have md: "in_float_range (4196401 / 4194304)" unfolding in_float_range_def by (simp add: v_29)
  have V: "min_angle_rad ?V = 0" "max_angle_rad ?V = 13176795 / 2097152" "is_bounded ?V"
    "steps_per_revolution ?V = 100"
    by (simp_all add: store_f32_def setup_presets_def binary32_zero v_1)
  have U: "min_angle_rad ?U = 0" "max_angle_rad ?U = 0" "\<not> is_bounded ?U"
    "steps_per_revolution ?U = 360"
    by (simp_all add: store_f32_def setup_presets_def binary32_zero)
  have D: "min_angle_rad ?D = 1" "max_angle_rad ?D = 4196401 / 4194304" "is_bounded ?D"
    "steps_per_revolution ?D = 8"
    by (simp_all add: store_f32_def degenerate_span_settings_def v_6 v_28)
  have Z: "min_angle_rad ?Z = 0" "max_angle_rad ?Z = 0" "steps_per_revolution ?Z = 0"
    by (simp_all add: store_f32_def setup_presets_def binary32_zero)
  have sV: "13176795 / 2097152 = fsub (max_angle_rad ?V) (min_angle_rad ?V)"
    by (simp only: V v_3)
  have sD: "2097 / 4194304 = fsub (max_angle_rad ?D) (min_angle_rad ?D)"
    by (simp only: D v_30)
  have q1: "16688605 / 1048576 = fdiv (max 0 (min (13176795 / 2097152) (fsub 1 (min_angle_rad ?V))))
      (fdiv (13176795 / 2097152) (float_of_long 100))"
    by (simp add: V v_7 v_4 v_5 v_8)
  have q2: "100 = fdiv (max 0 (min (13176795 / 2097152) (fsub 10 (min_angle_rad ?V))))
      (fdiv (13176795 / 2097152) (float_of_long 100))"
    by (simp add: V v_11 v_4 v_5 v_12)
  have q3: "0 = fdiv (max 0 (min (13176795 / 2097152) (fsub (- 3) (min_angle_rad ?V))))
      (fdiv (13176795 / 2097152) (float_of_long 100))"
    by (simp add: V v_25 v_4 v_5 v_26)
  have qu: "- (9387341 / 8192) = fdiv (fsub (- 20) 0) (fdiv (binary32 TWO_PI_macro) (float_of_long 360))"
    by (simp only: v_1 v_15 v_16 v_17 v_18)
  have qv: "9387341 / 8192 = fdiv (fsub 20 0) (fdiv (binary32 TWO_PI_macro) (float_of_long 360))"
    by (simp only: v_1 v_15 v_16 v_20 v_22)
  have ru: "(- 1146::int) = (if (- (9387341 / 8192) :: real) \<ge> 0 then \<lfloor>fadd (- (9387341 / 8192)) (1 / 2)\<rfloor>
      else \<lceil>fsub (- (9387341 / 8192)) (1 / 2)\<rceil>)"
    by (simp add: v_19)
  have rv: "(1146::int) = (if (9387341 / 8192 :: real) \<ge> 0 then \<lfloor>fadd (9387341 / 8192) (1 / 2)\<rfloor>
      else \<lceil>fsub (9387341 / 8192) (1 / 2)\<rceil>)"
    by (simp add: v_23)
  have nV: "(100::int) = steps_per_revolution ?V" "(100::int) \<le> 32767" by (simp_all add: V)
  have nU: "(360::int) = steps_per_revolution ?U" "(360::int) \<le> 32767" by (simp_all add: U)
  have nD: "(8::int) = steps_per_revolution ?D" "(8::int) \<le> 32767" by (simp_all add: D)
  have nZ: "(0::int) = steps_per_revolution ?Z" "(0::int) \<le> 32767" by (simp_all add: Z)
  have rV: "in_float_range (min_angle_rad ?V)" "in_float_range (max_angle_rad ?V)"
    using z0 tp by (simp_all add: V)
  have rU: "in_float_range (min_angle_rad ?U)" "in_float_range (max_angle_rad ?U)"
    using z0 by (simp_all add: U)
  have rD: "in_float_range (min_angle_rad ?D)" "in_float_range (max_angle_rad ?D)"
    using one md by (simp_all add: D)
  have rZ: "in_float_range (min_angle_rad ?Z)" "in_float_range (max_angle_rad ?Z)"
    using z0 by (simp_all add: Z)
  note w1 = step_quantizer_binary32 [OF nV rV one z0 sV q1 refl refl]
  note w2 = step_quantizer_binary32 [OF nV rV ten z0 sV q2 refl refl]
  note w7 = step_quantizer_binary32 [OF nV rV m3 z0 sV q3 refl refl]
  note w3 = step_quantizer_binary32 [OF nU rU m20 z0 refl refl qu ru]
  note w4 = step_quantizer_binary32 [OF nU rU p20 z0 refl refl qv rv]
  note w5 = step_quantizer_binary32 [OF nD rD ten z0 sD refl refl refl]
  note w6 = step_quantizer_binary32 [OF nZ rZ ten z0 refl refl refl refl]
  have valid: "binary32 0.001 < 13176795 / 2097152" unfolding eps_value by simp
  have degen: "2097 / 4194304 \<le> binary32 0.001" unfolding eps_value by simp
  have t1: "new_step_output_f32 ?V 1 0 = Some 16"
    using w1 valid by (simp add: V v_9)
  have t2: "new_step_output_f32 ?V 10 0 = Some 100"
    using w2 valid by (simp add: V v_13)
  have t7: "new_step_output_f32 ?V (- 3) 0 = Some 0"
    using w7 valid by (simp add: V v_27)
  have t3: "new_step_output_f32 ?U (- 20) 0 = Some (- 1146)"
    using w3 by (simp add: U)
  have t4: "new_step_output_f32 ?U 20 0 = Some 1146"
    using w4 by (simp add: U)
  have t5: "new_step_output_f32 ?D 10 0 = Some 0"
    using w5 degen by (simp add: D)
  have t6: "new_step_output_f32 ?Z 10 0 = Some 0"
    using w6 by simp
  from t1 t2 t7 t3 t4 t5 t6 show ?thesis by blast
qed

subsection \<open>The target angle in unbounded mode with detents\<close>

text \<open>
  Claim C4, as stated, fails in its example. With 12 detents the spacing is
  \<^verbatim>\<open>_2PI\<close>/12, about 0.5236, and 0.3 / 0.5236 is about 0.573, which rounds to 1: the
  target for a shaft at 0.3 rad and offset 0 is one spacing, not 0. This is so in the
  exact reading and in binary32, where the target is 4392265 / 8388608.
\<close>

theorem unbounded_example_counterexample:
  "calculated_foc_target_angle (setup_presets ! 1) 0.3 0 = TWO_PI_macro / 12
   \<and> calculated_foc_target_angle (setup_presets ! 1) 0.3 0 \<noteq> 0
   \<and> calculated_foc_target_angle_f32 (store_f32 (setup_presets ! 1)) (binary32 (3 / 10)) 0
       = Some (4392265 / 8388608)"
proof -
  let ?K = "store_f32 (setup_presets ! 1)"
  have e_1: "binary32 TWO_PI_macro = 13176795 / 2097152"
    unfolding TWO_PI_macro_def by (rule binary32_eqI [where e = "2" and m = "13176795"]) simp_all
  have e_2: "float_of_long 12 = 12"
    unfolding float_of_long_def by (rule binary32_eqI [where e = "3" and m = "12582912"]) simp_all
  have e_3: "fdiv (13176795 / 2097152) 12 = 4392265 / 8388608"
    unfolding fdiv_def by (rule binary32_eqI [where e = "- 1" and m = "8784530"]) simp_all
  have e_4: "binary32 (3 / 10) = 5033165 / 16777216"
    by (rule binary32_eqI [where e = "- 2" and m = "10066330"]) simp_all
  have e_5: "fsub (5033165 / 16777216) 0 = 5033165 / 16777216"
    unfolding fsub_def by (rule binary32_eqI [where e = "- 2" and m = "10066330"]) simp_all
  have e_6: "fdiv (5033165 / 16777216) (4392265 / 8388608) = 9612637 / 16777216"
    unfolding fdiv_def by (rule binary32_eqI [where e = "- 1" and m = "9612637"]) simp_all
  have e_7: "fadd (9612637 / 16777216) (1 / 2) = 4500311 / 4194304"
    unfolding fadd_def by (rule binary32_eqI [where e = "0" and m = "9000622"]) simp_all
  have e_8: "float_of_long 1 = 1"
    unfolding float_of_long_def by (rule binary32_eqI [where e = "0" and m = "8388608"]) simp_all
  have e_9: "fmul 1 (4392265 / 8388608) = 4392265 / 8388608"
    unfolding fmul_def by (rule binary32_eqI [where e = "- 1" and m = "8784530"]) simp_all
  have e_10: "fadd (4392265 / 8388608) 0 = 4392265 / 8388608"
    unfolding fadd_def by (rule binary32_eqI [where e = "- 1" and m = "8784530"]) simp_all
  have K: "\<not> is_bounded ?K" "num_detents ?K = 12"
    by (simp_all add: store_f32_def setup_presets_def)
  have "round_macro_f32 (fdiv (fsub (binary32 (3 / 10)) 0)
      (fdiv (binary32 TWO_PI_macro) (float_of_long 12))) = Some 1"
    by (simp add: round_macro_f32_eq e_1 e_2 e_3 e_4 e_5 e_6 e_7)
  then have f: "calculated_foc_target_angle_f32 ?K (binary32 (3 / 10)) 0 = Some (4392265 / 8388608)"
    using K by (simp add: target_f32_unbounded e_1 e_2 e_3 e_8 e_9 e_10)
  have x: "calculated_foc_target_angle (setup_presets ! 1) 0.3 0 = TWO_PI_macro / 12"
    by (simp add: calculated_foc_target_angle_def setup_presets_def Let_def round_macro_def
      trunc_long_def TWO_PI_macro_def)
  then have "calculated_foc_target_angle (setup_presets ! 1) 0.3 0 \<noteq> 0"
    by (simp add: TWO_PI_macro_def)
  with x f show ?thesis by blast
qed

text \<open>
  Claim C4, amended. For unbounded settings with \<open>k = num_detents\<close>, \<open>0 < k \<le> 32767\<close>,
  offset \<open>o\<close> and a shaft angle, the target is \<open>n * spacing + o\<close> with
  \<open>spacing = 2\<pi> / k\<close> and \<open>n\<close> the rounded quotient \<open>(angle - o) / spacing\<close>, every
  operation rounded to binary32; there is no clamp on \<open>n\<close>, and the target is defined
  when \<open>n\<close> fits a \<^verbatim>\<open>long\<close>. The target differs from the lattice point \<open>o + n * spacing\<close>
  by at most \<open>(|n * spacing| + |o|) / 2\<^sup>2\<^sup>2 + (1 + |spacing|) / 2\<^sup>1\<^sup>4\<^sup>8\<close>: it is a multiple
  of the spacing up to rounding, not exactly. (With \<open>k = 12\<close>, \<open>o = 0\<close> and the shaft at
  0.3 rad, \<open>n\<close> is 1 and the target is one spacing.)
\<close>

theorem haptic_transform_unbounded_binary32:
  assumes "\<not> is_bounded ks" and "0 < num_detents ks" and "num_detents ks \<le> 32767"
    and "in_float_range a" and "in_float_range off"
    and sp: "sp = fdiv (binary32 TWO_PI_macro) (float_of_long (num_detents ks))"
    and q: "q = fdiv (fsub a off) sp"
    and r: "r = (if q \<ge> 0 then \<lfloor>fadd q (1/2)\<rfloor> else \<lceil>fsub q (1/2)\<rceil>)"
  shows "calculated_foc_target_angle_f32 ks a off =
           (if - 2147483648 \<le> r \<and> r < 2147483648
            then Some (fadd (fmul (float_of_long r) sp) off) else None)
     \<and> (\<forall>t. calculated_foc_target_angle_f32 ks a off = Some t \<longrightarrow>
           \<bar>t - (off + real_of_int r * sp)\<bar>
             \<le> (\<bar>real_of_int r * sp\<bar> + \<bar>off\<bar>) / 2 ^ 22 + (1 + \<bar>sp\<bar>) / 2 ^ 148)"
proof -
  have eq: "calculated_foc_target_angle_f32 ks a off =
           (if - 2147483648 \<le> r \<and> r < 2147483648
            then Some (fadd (fmul (float_of_long r) sp) off) else None)"
    using assms(1,2)
    by (simp add: target_f32_unbounded round_macro_f32_eq Let_def sp q r)
  show ?thesis
    using lattice_tolerance [of r sp off] by (auto simp add: eq)
qed

text \<open>
  The second preset as stored (unbounded, 12 detents) with offset 0. A shaft at 0.3 rad
  has target 4392265 / 8388608, about 0.5235988, one spacing. A shaft at -20 rad has
  \<open>n = -38\<close>, more than three turns below zero, and target -10431629 / 524288, about
  -19.8967533, which is -37.9999986 spacings and within the bound.
\<close>

theorem haptic_transform_unbounded_binary32_witness:
  "calculated_foc_target_angle_f32 (store_f32 (setup_presets ! 1)) (binary32 (3 / 10)) 0
     = Some (4392265 / 8388608)
   \<and> calculated_foc_target_angle_f32 (store_f32 (setup_presets ! 1)) (- 20) 0
     = Some (- (10431629 / 524288))
   \<and> \<bar>- (10431629 / 524288) - (0 + real_of_int (- 38) * (4392265 / 8388608))\<bar>
       \<le> (\<bar>real_of_int (- 38) * (4392265 / 8388608)\<bar> + \<bar>0\<bar>) / 2 ^ 22
         + (1 + \<bar>4392265 / 8388608\<bar>) / 2 ^ 148"
proof -
  let ?K = "store_f32 (setup_presets ! 1)"
  have u: "\<not> is_bounded ?K" and k: "0 < num_detents ?K" "num_detents ?K \<le> 32767"
    and k12: "num_detents ?K = 12"
    by (simp_all add: store_f32_def setup_presets_def)
  have e_1: "binary32 TWO_PI_macro = 13176795 / 2097152"
    unfolding TWO_PI_macro_def by (rule binary32_eqI [where e = "2" and m = "13176795"]) simp_all
  have e_2: "float_of_long 12 = 12"
    unfolding float_of_long_def by (rule binary32_eqI [where e = "3" and m = "12582912"]) simp_all
  have e_3: "fdiv (13176795 / 2097152) 12 = 4392265 / 8388608"
    unfolding fdiv_def by (rule binary32_eqI [where e = "- 1" and m = "8784530"]) simp_all
  have e_4: "binary32 (3 / 10) = 5033165 / 16777216"
    by (rule binary32_eqI [where e = "- 2" and m = "10066330"]) simp_all
  have e_5: "binary32 (5033165 / 16777216) = 5033165 / 16777216"
    by (rule binary32_eqI [where e = "- 2" and m = "10066330"]) simp_all
  have e_6: "fsub (5033165 / 16777216) 0 = 5033165 / 16777216"
    unfolding fsub_def by (rule binary32_eqI [where e = "- 2" and m = "10066330"]) simp_all
  have e_7: "fdiv (5033165 / 16777216) (4392265 / 8388608) = 9612637 / 16777216"
    unfolding fdiv_def by (rule binary32_eqI [where e = "- 1" and m = "9612637"]) simp_all
  have e_8: "fadd (9612637 / 16777216) (1 / 2) = 4500311 / 4194304"
    unfolding fadd_def by (rule binary32_eqI [where e = "0" and m = "9000622"]) simp_all
  have e_9: "float_of_long 1 = 1"
    unfolding float_of_long_def by (rule binary32_eqI [where e = "0" and m = "8388608"]) simp_all
  have e_10: "fmul 1 (4392265 / 8388608) = 4392265 / 8388608"
    unfolding fmul_def by (rule binary32_eqI [where e = "- 1" and m = "8784530"]) simp_all
  have e_11: "fadd (4392265 / 8388608) 0 = 4392265 / 8388608"
    unfolding fadd_def by (rule binary32_eqI [where e = "- 1" and m = "8784530"]) simp_all
  have f_1: "binary32 (- 20) = - 20"
    by (rule binary32_eqI [where e = "4" and m = "- 10485760"]) simp_all
  have f_2: "fsub (- 20) 0 = - 20"
    unfolding fsub_def by (rule binary32_eqI [where e = "4" and m = "- 10485760"]) simp_all
  have f_3: "fdiv (- 20) (4392265 / 8388608) = - (10013163 / 262144)"
    unfolding fdiv_def by (rule binary32_eqI [where e = "5" and m = "- 10013163"]) simp_all
  have f_4: "fsub (- (10013163 / 262144)) (1 / 2) = - (10144235 / 262144)"
    unfolding fsub_def by (rule binary32_eqI [where e = "5" and m = "- 10144235"]) simp_all
  have f_5: "float_of_long (- 38) = - 38"
    unfolding float_of_long_def by (rule binary32_eqI [where e = "5" and m = "- 9961472"]) simp_all
  have f_6: "fmul (- 38) (4392265 / 8388608) = - (10431629 / 524288)"
    unfolding fmul_def by (rule binary32_eqI [where e = "4" and m = "- 10431629"]) simp_all
  have f_7: "fadd (- (10431629 / 524288)) 0 = - (10431629 / 524288)"
    unfolding fadd_def by (rule binary32_eqI [where e = "4" and m = "- 10431629"]) simp_all
  have z0: "in_float_range 0"
    by (simp add: in_float_range_def binary32_zero)
  have a1: "in_float_range (5033165 / 16777216)"
    by (simp add: in_float_range_def e_5)
  have a2: "in_float_range (- 20)"
    by (simp add: in_float_range_def f_1)
  have sp: "4392265 / 8388608 = fdiv (binary32 TWO_PI_macro) (float_of_long (num_detents ?K))"
    by (simp only: k12 e_1 e_2 e_3)
  have q1: "9612637 / 16777216 = fdiv (fsub (5033165 / 16777216) 0) (4392265 / 8388608)"
    by (simp only: e_6 e_7)
  have r1: "(1::int) = (if (9612637 / 16777216 :: real) \<ge> 0
      then \<lfloor>fadd (9612637 / 16777216) (1/2)\<rfloor> else \<lceil>fsub (9612637 / 16777216) (1/2)\<rceil>)"
    by (simp add: e_8)
  have q2: "- (10013163 / 262144) = fdiv (fsub (- 20) 0) (4392265 / 8388608)"
    by (simp only: f_2 f_3)
  have r2: "(- 38::int) = (if (- (10013163 / 262144) :: real) \<ge> 0
      then \<lfloor>fadd (- (10013163 / 262144)) (1/2)\<rfloor> else \<lceil>fsub (- (10013163 / 262144)) (1/2)\<rceil>)"
    by (simp add: f_4)
  note w1 = haptic_transform_unbounded_binary32 [OF u k a1 z0 sp q1 r1]
  note w2 = haptic_transform_unbounded_binary32 [OF u k a2 z0 sp q2 r2]
  have t1: "calculated_foc_target_angle_f32 ?K (binary32 (3 / 10)) 0 = Some (4392265 / 8388608)"
    using w1 by (simp add: e_4 e_9 e_10 e_11)
  have t2: "calculated_foc_target_angle_f32 ?K (- 20) 0 = Some (- (10431629 / 524288))"
    using w2 by (simp add: f_5 f_6 f_7)
  have t3: "\<bar>- (10431629 / 524288) - (0 + real_of_int (- 38) * (4392265 / 8388608))\<bar>
       \<le> (\<bar>real_of_int (- 38) * (4392265 / 8388608)\<bar> + \<bar>0\<bar>) / 2 ^ 22
         + (1 + \<bar>4392265 / 8388608\<bar>) / 2 ^ 148"
    using w2 t2 by blast
  from t1 t2 t3 show ?thesis by blast
qed

end
